theory Spec2Isabelle
  imports Main "HOL-Library.Multiset" "HOL-Library.Code_Target_Numeral"
begin

section \<open>JavaScript values of an adjust request\<close>

text \<open>
  The handler of \<^verbatim>\<open>PUT /api/inventory/:productId/adjust\<close> reads \<^verbatim>\<open>quantity\<close>,
  \<^verbatim>\<open>movement_type\<close>, \<^verbatim>\<open>reference_number\<close> and \<^verbatim>\<open>notes\<close> from the JSON body.
  A field is absent (\<^verbatim>\<open>undefined\<close>) or one of the values of JSON. The handler uses a
  value in four ways only: \<^verbatim>\<open>!v\<close>, \<^verbatim>\<open>parseInt(v)\<close>, which reads the text
  \<^verbatim>\<open>String(v)\<close>, the comparison with a string of the \<^verbatim>\<open>switch\<close>, and as a
  parameter of a statement, which the driver sends as text. So a number is kept as
  the text \<^verbatim>\<open>String(v)\<close> gives for it (\<^verbatim>\<open>30\<close>, \<^verbatim>\<open>-5\<close>, \<^verbatim>\<open>6.9\<close>, \<^verbatim>\<open>1e+21\<close>; zero and
  minus zero are both \<^verbatim>\<open>0\<close>), and an array or object as its two texts: the one
  \<^verbatim>\<open>String(v)\<close> gives and the one the driver sends. Strings are lists of code units
  below 256.
\<close>

datatype jsval =
    Undefined
  | Null
  | Bool bool
  | NumberText string
  | String string
  | Object string string

text \<open>
  The result of \<^verbatim>\<open>parseInt\<close> and of the arithmetic on it: \<^verbatim>\<open>NaN\<close>, or the number
  nearest to an integer. Below \<open>2^53\<close> that is the integer itself and sums are exact;
  above it the handler uses only the sign of such a number and its text as a
  parameter, which no \<^verbatim>\<open>INTEGER\<close> column reads, and neither depends on the rounding.
\<close>

datatype jsnum = NaN | Num int

text \<open>\<^verbatim>\<open>!v\<close>: the values that count as false. An array or object never does.\<close>

fun falsy :: "jsval \<Rightarrow> bool" where
  "falsy Undefined = True"
| "falsy Null = True"
| "falsy (Bool b) = (b = False)"
| "falsy (NumberText t) = (t = ''0'' \<or> t = ''NaN'')"
| "falsy (String s) = (s = [])"
| "falsy (Object s t) = False"

fun decimal_nat :: "nat \<Rightarrow> string" where
  "decimal_nat n =
     (if n < 10 then [char_of (48 + n)]
      else decimal_nat (n div 10) @ [char_of (48 + n mod 10)])"

declare decimal_nat.simps [simp del]

definition decimal_int :: "int \<Rightarrow> string" where
  "decimal_int n = (if n < 0 then CHR ''-'' # decimal_nat (nat (- n)) else decimal_nat (nat n))"

text \<open>
  The text of a number with the integer value \<open>n\<close>. Below \<^verbatim>\<open>1e21\<close> in magnitude it is
  the decimal digits of \<open>n\<close>. From there on JavaScript writes the exponent form: the
  first digit, after a point the further digits up to the last that is not zero, and
  the exponent, as in \<^verbatim>\<open>1e+21\<close> and \<^verbatim>\<open>1.5e+21\<close>. A number has at most 17 such digits;
  for an integer that no number equals the text is that of no number.
\<close>

definition significant :: "string \<Rightarrow> string" where
  "significant ds = rev (dropWhile (\<lambda>ch. ch = CHR ''0'') (rev ds))"

definition exponent_text :: "nat \<Rightarrow> string" where
  "exponent_text m =
     (let ds = decimal_nat m;
          further = significant (drop 1 ds)
      in take 1 ds @ (if further = [] then [] else CHR ''.'' # further) @
         ''e+'' @ decimal_nat (length ds - 1))"

definition number_text :: "int \<Rightarrow> string" where
  "number_text n =
     (if \<bar>n\<bar> < 1000000000000000000000 then decimal_int n
      else (if n < 0 then ''-'' else []) @ exponent_text (nat \<bar>n\<bar>))"

definition Number :: "int \<Rightarrow> jsval" where
  "Number n = NumberText (number_text n)"

text \<open>\<^verbatim>\<open>String(v)\<close>, the conversion \<^verbatim>\<open>parseInt\<close> applies to its argument first.\<close>

fun ToString :: "jsval \<Rightarrow> string" where
  "ToString Undefined = ''undefined''"
| "ToString Null = ''null''"
| "ToString (Bool b) = (if b then ''true'' else ''false'')"
| "ToString (NumberText t) = t"
| "ToString (String s) = s"
| "ToString (Object s t) = s"

text \<open>White space that \<^verbatim>\<open>parseInt\<close> skips: TAB, LF, VT, FF, CR, SP and NBSP.\<close>

definition StrWhiteSpaceChar :: "char \<Rightarrow> bool" where
  "StrWhiteSpaceChar ch = (of_char ch \<in> {9, 10, 11, 12, 13, 32, 160 :: nat})"

text \<open>The value of a character as a digit of radix \<open>R\<close>, if it is one.\<close>

definition digit_of :: "nat \<Rightarrow> char \<Rightarrow> nat option" where
  "digit_of R ch =
     (let k = (of_char ch :: nat);
          v = (if 48 \<le> k \<and> k \<le> 57 then Some (k - 48)
               else if 97 \<le> k \<and> k \<le> 122 then Some (k - 87)
               else if 65 \<le> k \<and> k \<le> 90 then Some (k - 55)
               else None)
      in case v of None \<Rightarrow> None | Some d \<Rightarrow> if d < R then Some d else None)"

text \<open>The digits of the longest prefix made of radix-\<open>R\<close> digits.\<close>

fun digits_prefix :: "nat \<Rightarrow> string \<Rightarrow> nat list" where
  "digits_prefix R [] = []"
| "digits_prefix R (ch # cs) =
     (case digit_of R ch of None \<Rightarrow> [] | Some d \<Rightarrow> d # digits_prefix R cs)"

definition digits_value :: "nat \<Rightarrow> nat list \<Rightarrow> nat" where
  "digits_value R ds = foldl (\<lambda>a d. a * R + d) 0 ds"

text \<open>
  \<^verbatim>\<open>parseInt(string)\<close> with no radix argument: skip white space, read a sign, take
  radix 16 after a \<^verbatim>\<open>0x\<close> prefix and radix 10 otherwise, read the longest prefix of
  digits and ignore what follows; no digit gives \<^verbatim>\<open>NaN\<close>.
\<close>

definition parseInt_string :: "string \<Rightarrow> jsnum" where
  "parseInt_string inputString =
     (let S = dropWhile StrWhiteSpaceChar inputString;
          sign = (if take 1 S = ''-'' then - 1 else 1 :: int);
          S1 = (if take 1 S = ''+'' \<or> take 1 S = ''-'' then drop 1 S else S);
          R = (if take 2 S1 = ''0x'' \<or> take 2 S1 = ''0X'' then 16 else 10);
          S2 = (if take 2 S1 = ''0x'' \<or> take 2 S1 = ''0X'' then drop 2 S1 else S1);
          Z = digits_prefix R S2
      in if Z = [] then NaN else Num (sign * int (digits_value R Z)))"

definition parseInt :: "jsval \<Rightarrow> jsnum" where
  "parseInt v = parseInt_string (ToString v)"

text \<open>\<^verbatim>\<open>a + b\<close>, \<^verbatim>\<open>a - b\<close> and \<^verbatim>\<open>a < 0\<close> on numbers; \<^verbatim>\<open>NaN\<close> is absorbing and
  compares false.\<close>

fun js_add :: "jsnum \<Rightarrow> jsnum \<Rightarrow> jsnum" where
  "js_add (Num a) (Num b) = Num (a + b)"
| "js_add _ _ = NaN"

fun js_sub :: "jsnum \<Rightarrow> jsnum \<Rightarrow> jsnum" where
  "js_sub (Num a) (Num b) = Num (a - b)"
| "js_sub _ _ = NaN"

fun js_negative :: "jsnum \<Rightarrow> bool" where
  "js_negative (Num a) = (a < 0)"
| "js_negative NaN = False"

section \<open>The storage layer\<close>

text \<open>
  The tables of \<^verbatim>\<open>initializeDatabase\<close>, with the columns the inventory routes read or
  write. A nullable column is an \<open>option\<close>. \<^verbatim>\<open>CURRENT_TIMESTAMP\<close> is the time \<open>now\<close>
  handed to a request; the \<^verbatim>\<open>SERIAL\<close> key of \<^verbatim>\<open>stock_movements\<close> is left to the
  storage layer, the rows are kept in insertion order. A statement fails for the
  reasons the schema gives: a value its column's type does not read, a \<^verbatim>\<open>NULL\<close> in a
  \<^verbatim>\<open>NOT NULL\<close> column, a reference to a product that does not exist.

  The model follows \<^verbatim>\<open>server.js\<close>. The second copy of the server puts
  \<^verbatim>\<open>authenticateToken\<close> in front of each route and adds the column \<^verbatim>\<open>user_id\<close>, set
  from the token, to the movement row; the presence check, the \<^verbatim>\<open>switch\<close>, the
  statements and the error handling of the adjust route are the same.
\<close>

record category =
  c_id :: int
  c_name :: string

record product =
  p_id :: int
  p_name :: string
  sku :: "string option"
  price :: string
  p_category_id :: "int option"

record inventory_row =
  inv_id :: int
  inv_product_id :: "int option"
  inv_quantity :: int
  min_stock_level :: "int option"
  max_stock_level :: "int option"
  location :: "string option"
  updated_at :: nat

record stock_movement =
  sm_product_id :: int
  sm_movement_type :: string
  sm_quantity :: int
  sm_reference_number :: "string option"
  sm_notes :: "string option"
  created_at :: nat

record db =
  categories :: "category list"
  products :: "product list"
  inventory :: "inventory_row list"
  stock_movements :: "stock_movement list"

text \<open>
  A pooled client: \<open>visible\<close> is the committed state, the one every other reader
  observes; \<open>work\<close> is the state of the open transaction, if there is one.
\<close>

record client =
  visible :: db
  work :: "db option"

definition connect :: "db \<Rightarrow> client" where
  "connect d = \<lparr>visible = d, work = None\<rparr>"

definition current :: "client \<Rightarrow> db" where
  "current c = (case work c of None \<Rightarrow> visible c | Some d \<Rightarrow> d)"

definition put_db :: "client \<Rightarrow> db \<Rightarrow> client" where
  "put_db c d = (case work c of None \<Rightarrow> c\<lparr>visible := d\<rparr> | Some _ \<Rightarrow> c\<lparr>work := Some d\<rparr>)"

definition query_begin :: "client \<Rightarrow> client" where
  "query_begin c = (case work c of None \<Rightarrow> c\<lparr>work := Some (visible c)\<rparr> | Some _ \<Rightarrow> c)"

definition query_commit :: "client \<Rightarrow> client" where
  "query_commit c = (case work c of None \<Rightarrow> c | Some d \<Rightarrow> \<lparr>visible = d, work = None\<rparr>)"

definition query_rollback :: "client \<Rightarrow> client" where
  "query_rollback c = c\<lparr>work := None\<rparr>"

subsection \<open>Binding a parameter to a column\<close>

text \<open>
  The driver sends every parameter as text, \<^verbatim>\<open>undefined\<close> and \<^verbatim>\<open>null\<close> as \<^verbatim>\<open>NULL\<close>,
  and the column's type reads the text.
\<close>

fun driver_text :: "jsval \<Rightarrow> string option" where
  "driver_text Undefined = None"
| "driver_text Null = None"
| "driver_text (Object s t) = Some t"
| "driver_text v = Some (ToString v)"

text \<open>
  The integer input of PostgreSQL 16 and later: white space, a sign, then decimal
  digits or, after \<^verbatim>\<open>0x\<close>, \<^verbatim>\<open>0o\<close> or \<^verbatim>\<open>0b\<close>, digits of that radix, then white
  space. An underscore may stand before a digit, though not as the first character
  of a decimal number. Anything else, no digit at all, or a value outside 32 bits is
  the query's error, \<open>None\<close>.
\<close>

definition isspace :: "char \<Rightarrow> bool" where
  "isspace ch = (of_char ch \<in> {9, 10, 11, 12, 13, 32 :: nat})"

definition int4_range :: "int \<Rightarrow> bool" where
  "int4_range n = (- 2147483648 \<le> n \<and> n \<le> 2147483647)"

text \<open>The digits read, with what follows them; \<open>None\<close> for an underscore that no digit follows.\<close>

fun pg_digits :: "nat \<Rightarrow> string \<Rightarrow> (nat list \<times> string) option" where
  "pg_digits R [] = Some ([], [])"
| "pg_digits R (ch # cs) =
     (case digit_of R ch of
        Some d \<Rightarrow>
          (case pg_digits R cs of None \<Rightarrow> None | Some (ds, rest) \<Rightarrow> Some (d # ds, rest))
      | None \<Rightarrow>
          if ch = CHR ''_'' then
            (case cs of
               [] \<Rightarrow> None
             | ch' # _ \<Rightarrow> (case digit_of R ch' of None \<Rightarrow> None | Some _ \<Rightarrow> pg_digits R cs))
          else Some ([], ch # cs))"

definition int4in :: "string \<Rightarrow> int option" where
  "int4in s =
     (let s1 = dropWhile isspace s;
          s2 = (if take 1 s1 = ''+'' \<or> take 1 s1 = ''-'' then drop 1 s1 else s1);
          R = (if take 2 s2 = ''0x'' \<or> take 2 s2 = ''0X'' then 16
               else if take 2 s2 = ''0o'' \<or> take 2 s2 = ''0O'' then 8
               else if take 2 s2 = ''0b'' \<or> take 2 s2 = ''0B'' then 2
               else 10 :: nat);
          s3 = (if R = 10 then s2 else drop 2 s2)
      in if R = 10 \<and> take 1 s2 = ''_'' then None
         else
           (case pg_digits R s3 of
              None \<Rightarrow> None
            | Some (ds, rest) \<Rightarrow>
                (let n = (if take 1 s1 = ''-'' then - int (digits_value R ds)
                          else int (digits_value R ds))
                 in if ds \<noteq> [] \<and> dropWhile isspace rest = [] \<and> int4_range n
                    then Some n else None)))"

text \<open>A value bound to an \<^verbatim>\<open>INTEGER NOT NULL\<close> column, which refuses \<^verbatim>\<open>NULL\<close>.\<close>

definition bind_integer :: "jsval \<Rightarrow> int option" where
  "bind_integer v = (case driver_text v of None \<Rightarrow> None | Some t \<Rightarrow> int4in t)"

text \<open>
  The new quantity bound to the \<^verbatim>\<open>INTEGER\<close> column. Within 32 bits the text of a
  number is its decimal digits; outside, decimal digits or exponent form, no
  \<^verbatim>\<open>INTEGER\<close> column reads it.
\<close>

fun bind_number :: "jsnum \<Rightarrow> int option" where
  "bind_number NaN = None"
| "bind_number (Num n) = int4in (decimal_int n)"

text \<open>\<^verbatim>\<open>VARCHAR(n)\<close>: a longer text is an error unless only spaces are cut off.\<close>

definition varchar :: "nat \<Rightarrow> string \<Rightarrow> string option" where
  "varchar n s =
     (if length s \<le> n then Some s
      else if dropWhile (\<lambda>ch. ch = CHR '' '') (drop n s) = [] then Some (take n s)
      else None)"

text \<open>A value bound to a nullable \<^verbatim>\<open>VARCHAR(n)\<close> or \<^verbatim>\<open>TEXT\<close> column: the outer \<open>None\<close> is
  the query's error, the inner one is \<^verbatim>\<open>NULL\<close>.\<close>

definition bind_varchar :: "nat \<Rightarrow> jsval \<Rightarrow> string option option" where
  "bind_varchar n v =
     (case driver_text v of None \<Rightarrow> Some None | Some t \<Rightarrow> map_option Some (varchar n t))"

definition bind_text :: "jsval \<Rightarrow> string option" where
  "bind_text v = driver_text v"

subsection \<open>The statements of the adjust transaction\<close>

text \<open>\<^verbatim>\<open>SELECT * FROM inventory WHERE product_id = $1\<close>\<close>

definition select_inventory :: "client \<Rightarrow> string \<Rightarrow> inventory_row list option" where
  "select_inventory c productId =
     (case int4in productId of
        None \<Rightarrow> None
      | Some pid \<Rightarrow> Some (filter (\<lambda>r. inv_product_id r = Some pid) (inventory (current c))))"

text \<open>\<^verbatim>\<open>UPDATE inventory SET quantity = $1, updated_at = CURRENT_TIMESTAMP WHERE product_id = $2\<close>\<close>

definition set_quantity :: "nat \<Rightarrow> int \<Rightarrow> int \<Rightarrow> inventory_row list \<Rightarrow> inventory_row list" where
  "set_quantity now pid n rows =
     map (\<lambda>r. if inv_product_id r = Some pid then r\<lparr>inv_quantity := n, updated_at := now\<rparr> else r) rows"

definition update_inventory :: "nat \<Rightarrow> client \<Rightarrow> jsnum \<Rightarrow> string \<Rightarrow> client option" where
  "update_inventory now c newQuantity productId =
     (case bind_number newQuantity of
        None \<Rightarrow> None
      | Some n \<Rightarrow>
         (case int4in productId of
            None \<Rightarrow> None
          | Some pid \<Rightarrow>
             Some (put_db c ((current c)\<lparr>inventory := set_quantity now pid n (inventory (current c))\<rparr>))))"

text \<open>
  \<^verbatim>\<open>INSERT INTO stock_movements (product_id, movement_type, quantity, reference_number, notes)\<close>
  \<^verbatim>\<open>VALUES ($1, $2, $3, $4, $5)\<close>. The columns are \<^verbatim>\<open>product_id INTEGER REFERENCES products(id)\<close>,
  \<^verbatim>\<open>movement_type VARCHAR(50) NOT NULL\<close>, \<^verbatim>\<open>quantity INTEGER NOT NULL\<close>,
  \<^verbatim>\<open>reference_number VARCHAR(100)\<close> and \<^verbatim>\<open>notes TEXT\<close>.
\<close>

definition insert_stock_movement ::
  "nat \<Rightarrow> client \<Rightarrow> string \<Rightarrow> jsval \<Rightarrow> jsval \<Rightarrow> jsval \<Rightarrow> jsval \<Rightarrow> client option" where
  "insert_stock_movement now c productId movement_type quantity reference_number notes' =
     (case int4in productId of
        None \<Rightarrow> None
      | Some pid \<Rightarrow>
     (case bind_varchar 50 movement_type of
        None \<Rightarrow> None
      | Some None \<Rightarrow> None
      | Some (Some mt) \<Rightarrow>
     (case bind_integer quantity of
        None \<Rightarrow> None
      | Some q \<Rightarrow>
     (case bind_varchar 100 reference_number of
        None \<Rightarrow> None
      | Some rn \<Rightarrow>
         if pid \<in> set (map p_id (products (current c)))
         then Some (put_db c ((current c)\<lparr>stock_movements := stock_movements (current c) @
                [\<lparr>sm_product_id = pid, sm_movement_type = mt, sm_quantity = q,
                  sm_reference_number = rn, sm_notes = bind_text notes', created_at = now\<rparr>]\<rparr>))
         else None))))"

section \<open>The adjust handler\<close>

text \<open>What the handler throws: an \<^verbatim>\<open>Error\<close> of its own with its message, or the error of
  a failed query, whose message is the driver's.\<close>

datatype js_error = Error string | DatabaseError

datatype body =
    Error_json string
  | Database_error_json
  | Adjusted_json int jsnum

record response =
  status :: nat
  json :: body

text \<open>The \<^verbatim>\<open>switch (movement_type)\<close>: the new quantity, or the error thrown.\<close>

definition new_quantity :: "jsval \<Rightarrow> int \<Rightarrow> jsval \<Rightarrow> js_error + jsnum" where
  "new_quantity movement_type current_quantity quantity =
     (if movement_type = String ''IN'' then
        Inr (js_add (Num current_quantity) (parseInt quantity))
      else if movement_type = String ''OUT'' then
        (let newQuantity = js_sub (Num current_quantity) (parseInt quantity)
         in if js_negative newQuantity then Inl (Error ''Insufficient stock'')
            else Inr newQuantity)
      else if movement_type = String ''ADJUSTMENT'' then
        Inr (parseInt quantity)
      else Inl (Error ''Invalid movement type''))"

text \<open>The route parameter and the fields read from the body.\<close>

record request =
  productId :: string
  quantity :: jsval
  movement_type :: jsval
  reference_number :: jsval
  body_notes :: jsval

text \<open>
  The inner \<^verbatim>\<open>try\<close> block, from \<^verbatim>\<open>BEGIN\<close> to \<^verbatim>\<open>COMMIT\<close>: it returns a response
  (\<open>Inr\<close>) or throws (\<open>Inl\<close>), and leaves the client as it is at that point. The
  \<^verbatim>\<open>return\<close> of the 404 response leaves the block with the transaction still open.
\<close>

definition adjust_transaction :: "nat \<Rightarrow> client \<Rightarrow> request \<Rightarrow> (js_error + response) \<times> client" where
  "adjust_transaction now c0 req =
     (let c1 = query_begin c0 in
      case select_inventory c1 (productId req) of
        None \<Rightarrow> (Inl DatabaseError, c1)
      | Some [] \<Rightarrow>
          (Inr \<lparr>status = 404, json = Error_json ''Product inventory not found''\<rparr>, c1)
      | Some (currentInventory # _) \<Rightarrow>
     (case new_quantity (movement_type req) (inv_quantity currentInventory) (quantity req) of
        Inl e \<Rightarrow> (Inl e, c1)
      | Inr newQuantity \<Rightarrow>
     (case update_inventory now c1 newQuantity (productId req) of
        None \<Rightarrow> (Inl DatabaseError, c1)
      | Some c2 \<Rightarrow>
     (case insert_stock_movement now c2 (productId req) (movement_type req) (quantity req)
             (reference_number req) (body_notes req) of
        None \<Rightarrow> (Inl DatabaseError, c2)
      | Some c3 \<Rightarrow>
          (Inr \<lparr>status = 200, json = Adjusted_json (inv_quantity currentInventory) newQuantity\<rparr>,
           query_commit c3)))))"

text \<open>\<^verbatim>\<open>error.message || 'Internal server error'\<close>\<close>

fun error_json :: "js_error \<Rightarrow> body" where
  "error_json (Error m) = (if m = [] then Error_json ''Internal server error'' else Error_json m)"
| "error_json DatabaseError = Database_error_json"

text \<open>
  The handler, on the client \<^verbatim>\<open>pool.connect()\<close> hands out: the presence check, then
  the transaction; a throw is answered by \<^verbatim>\<open>ROLLBACK\<close> and the 500 response of the
  outer \<^verbatim>\<open>catch\<close>. The result is the response and the client as \<^verbatim>\<open>client.release()\<close>
  gives it back to the pool.
\<close>

definition adjust_client :: "nat \<Rightarrow> client \<Rightarrow> request \<Rightarrow> response \<times> client" where
  "adjust_client now c req =
     (if falsy (quantity req) \<or> falsy (movement_type req) then
        (\<lparr>status = 400, json = Error_json ''Quantity and movement type are required''\<rparr>, c)
      else
        (case adjust_transaction now c req of
           (Inr res, c') \<Rightarrow> (res, c')
         | (Inl error, c') \<Rightarrow>
             (\<lparr>status = 500, json = error_json error\<rparr>, query_rollback c')))"

text \<open>One call on a fresh client: the response and the committed state it leaves behind.\<close>

definition adjust :: "nat \<Rightarrow> db \<Rightarrow> request \<Rightarrow> response \<times> db" where
  "adjust now d req = (case adjust_client now (connect d) req of (res, c) \<Rightarrow> (res, visible c))"

subsection \<open>Two calls at once\<close>

text \<open>
  The handler gives way at each \<^verbatim>\<open>await\<close>. Its statements up to the first write are
  \<^verbatim>\<open>BEGIN\<close> and the plain \<^verbatim>\<open>SELECT\<close>, which takes no lock on the row it reads; then
  the \<^verbatim>\<open>switch\<close> computes the new quantity from the row read. The first part ends
  with a response, or with the row read and the new quantity still to be written.
\<close>

definition adjust_until_write ::
  "client \<Rightarrow> request \<Rightarrow> (response + inventory_row \<times> jsnum) \<times> client" where
  "adjust_until_write c req =
     (if falsy (quantity req) \<or> falsy (movement_type req) then
        (Inl \<lparr>status = 400, json = Error_json ''Quantity and movement type are required''\<rparr>, c)
      else
     (let c1 = query_begin c in
      case select_inventory c1 (productId req) of
        None \<Rightarrow> (Inl \<lparr>status = 500, json = error_json DatabaseError\<rparr>, query_rollback c1)
      | Some [] \<Rightarrow>
          (Inl \<lparr>status = 404, json = Error_json ''Product inventory not found''\<rparr>, c1)
      | Some (currentInventory # _) \<Rightarrow>
     (case new_quantity (movement_type req) (inv_quantity currentInventory) (quantity req) of
        Inl e \<Rightarrow> (Inl \<lparr>status = 500, json = error_json e\<rparr>, query_rollback c1)
      | Inr newQuantity \<Rightarrow> (Inr (currentInventory, newQuantity), c1))))"

text \<open>The second part: \<^verbatim>\<open>UPDATE\<close>, \<^verbatim>\<open>INSERT\<close>, \<^verbatim>\<open>COMMIT\<close> and the response.\<close>

definition adjust_from_write ::
  "nat \<Rightarrow> client \<Rightarrow> request \<Rightarrow> inventory_row \<times> jsnum \<Rightarrow> response \<times> client" where
  "adjust_from_write now c1 req pending =
     (case pending of (currentInventory, newQuantity) \<Rightarrow>
     (case update_inventory now c1 newQuantity (productId req) of
        None \<Rightarrow> (\<lparr>status = 500, json = error_json DatabaseError\<rparr>, query_rollback c1)
      | Some c2 \<Rightarrow>
     (case insert_stock_movement now c2 (productId req) (movement_type req) (quantity req)
             (reference_number req) (body_notes req) of
        None \<Rightarrow> (\<lparr>status = 500, json = error_json DatabaseError\<rparr>, query_rollback c2)
      | Some c3 \<Rightarrow>
          (\<lparr>status = 200, json = Adjusted_json (inv_quantity currentInventory) newQuantity\<rparr>,
           query_commit c3))))"

text \<open>
  The handler sets no isolation level, so a transaction reads what is committed at
  each of its statements: once another client has committed the state \<open>d\<close>, a client
  that has written nothing sees \<open>d\<close> from its next statement on.
\<close>

definition other_commit :: "db \<Rightarrow> client \<Rightarrow> client" where
  "other_commit d c = \<lparr>visible = d, work = map_option (\<lambda>_. d) (work c)\<rparr>"

text \<open>
  Two calls, each on its own client, in the order: both first parts, then the second
  part of the first call, then the second part of the second. The result is the two
  responses and the committed state.
\<close>

definition adjust_interleaved ::
  "nat \<Rightarrow> nat \<Rightarrow> db \<Rightarrow> request \<Rightarrow> request \<Rightarrow> response \<times> response \<times> db" where
  "adjust_interleaved now1 now2 d req1 req2 =
     (case adjust_until_write (connect d) req1 of (part1, c1) \<Rightarrow>
      case adjust_until_write (connect d) req2 of (part2, c2) \<Rightarrow>
      case (case part1 of Inl res \<Rightarrow> (res, c1)
            | Inr pending \<Rightarrow> adjust_from_write now1 c1 req1 pending) of (res1, c1') \<Rightarrow>
      case (case part2 of Inl res \<Rightarrow> (res, other_commit (visible c1') c2)
            | Inr pending \<Rightarrow>
                adjust_from_write now2 (other_commit (visible c1') c2) req2 pending) of
        (res2, c2') \<Rightarrow> (res1, res2, visible c2'))"

section \<open>The low-stock query\<close>

text \<open>
  \<^verbatim>\<open>SELECT i.*, p.name as product_name, p.sku, p.price, c.name as category_name\<close>
  \<^verbatim>\<open>FROM inventory i JOIN products p ON i.product_id = p.id\<close>
  \<^verbatim>\<open>LEFT JOIN categories c ON p.category_id = c.id\<close>
  \<^verbatim>\<open>WHERE i.quantity <= i.min_stock_level ORDER BY i.quantity ASC\<close>
\<close>

record low_stock_row =
  inventory_columns :: inventory_row
  product_name :: string
  row_sku :: "string option"
  row_price :: string
  category_name :: "string option"

definition join_products :: "db \<Rightarrow> inventory_row \<Rightarrow> product list" where
  "join_products d i = filter (\<lambda>p. inv_product_id i = Some (p_id p)) (products d)"

definition left_join_categories :: "db \<Rightarrow> product \<Rightarrow> string option list" where
  "left_join_categories d p =
     (case filter (\<lambda>c. p_category_id p = Some (c_id c)) (categories d) of
        [] \<Rightarrow> [None]
      | cs \<Rightarrow> map (\<lambda>c. Some (c_name c)) cs)"

definition joined_rows :: "db \<Rightarrow> low_stock_row list" where
  "joined_rows d =
     concat (map (\<lambda>i. concat (map (\<lambda>p. map (\<lambda>cn.
        \<lparr>inventory_columns = i, product_name = p_name p, row_sku = sku p, row_price = price p,
          category_name = cn\<rparr>) (left_join_categories d p)) (join_products d i))) (inventory d))"

text \<open>\<^verbatim>\<open>i.quantity <= i.min_stock_level\<close>; the comparison with \<^verbatim>\<open>NULL\<close> is not true.\<close>

definition low :: "inventory_row \<Rightarrow> bool" where
  "low i = (case min_stock_level i of None \<Rightarrow> False | Some m \<Rightarrow> inv_quantity i \<le> m)"

definition low_stock :: "db \<Rightarrow> low_stock_row list" where
  "low_stock d = sort_key (\<lambda>r. inv_quantity (inventory_columns r)) (filter (\<lambda>r. low (inventory_columns r)) (joined_rows d))"

section \<open>Auxiliary definitions and example stores\<close>

text \<open>The decimal digits, as the characters \<open>decimal_nat\<close> writes.\<close>

definition digit_char :: "char \<Rightarrow> bool" where
  "digit_char ch = (48 \<le> (of_char ch :: nat) \<and> (of_char ch :: nat) \<le> 57)"

text \<open>The value of a decimal digit, and the value of a string of them.\<close>

definition digit_val :: "char \<Rightarrow> nat" where
  "digit_val ch = of_char ch - 48"

definition decimal_value :: "string \<Rightarrow> nat" where
  "decimal_value ds = digits_value 10 (map digit_val ds)"

text \<open>What may follow the digits of a decimal number: nothing, or a character that is
  neither a digit, nor an underscore, nor the letter of a radix prefix.\<close>

definition ends_number :: "string \<Rightarrow> bool" where
  "ends_number t =
     (case t of
        [] \<Rightarrow> True
      | ch # _ \<Rightarrow> digit_of 10 ch = None \<and>
          ch \<notin> {CHR ''x'', CHR ''X'', CHR ''o'', CHR ''O'', CHR ''b'', CHR ''B'', CHR ''_''})"

text \<open>The outcome of a query error: \<^verbatim>\<open>ROLLBACK\<close>, then the 500 response with the driver's message.\<close>

definition storage_error :: "db \<Rightarrow> response \<times> db" where
  "storage_error d = (\<lparr>status = 500, json = Database_error_json\<rparr>, d)"

definition storage_error_client :: "db \<Rightarrow> response \<times> client" where
  "storage_error_client d = (\<lparr>status = 500, json = Database_error_json\<rparr>, connect d)"

text \<open>A store with one product, 50 in stock, and a request for it.\<close>

definition example_db :: db where
  "example_db =
     \<lparr>categories = [],
      products = [\<lparr>p_id = 1, p_name = ''bolt'', sku = None, price = ''1.00'', p_category_id = None\<rparr>],
      inventory = [\<lparr>inv_id = 1, inv_product_id = Some 1, inv_quantity = 50,
                    min_stock_level = Some 10, max_stock_level = Some 1000, location = None,
                    updated_at = 0\<rparr>],
      stock_movements = []\<rparr>"

text \<open>A store with three products: 5, 15 and 3 in stock, each with minimum 10.\<close>

definition low_stock_db :: db where
  "low_stock_db =
     \<lparr>categories = [\<lparr>c_id = 1, c_name = ''fasteners''\<rparr>],
      products =
        [\<lparr>p_id = 1, p_name = ''bolt'', sku = None, price = ''1.00'', p_category_id = Some 1\<rparr>,
         \<lparr>p_id = 2, p_name = ''nut'', sku = None, price = ''0.50'', p_category_id = None\<rparr>,
         \<lparr>p_id = 3, p_name = ''washer'', sku = None, price = ''0.10'', p_category_id = Some 1\<rparr>],
      inventory =
        [\<lparr>inv_id = 1, inv_product_id = Some 1, inv_quantity = 5, min_stock_level = Some 10,
           max_stock_level = Some 1000, location = None, updated_at = 0\<rparr>,
         \<lparr>inv_id = 2, inv_product_id = Some 2, inv_quantity = 15, min_stock_level = Some 10,
           max_stock_level = Some 1000, location = None, updated_at = 0\<rparr>,
         \<lparr>inv_id = 3, inv_product_id = Some 3, inv_quantity = 3, min_stock_level = Some 10,
           max_stock_level = Some 1000, location = None, updated_at = 0\<rparr>],
      stock_movements = []\<rparr>"

definition example_row :: inventory_row where
  "example_row =
     \<lparr>inv_id = 1, inv_product_id = Some 1, inv_quantity = 50, min_stock_level = Some 10,
      max_stock_level = Some 1000, location = None, updated_at = 0\<rparr>"

definition example_request :: "jsval \<Rightarrow> jsval \<Rightarrow> request" where
  "example_request q mt =
     \<lparr>productId = ''1'', quantity = q, movement_type = mt, reference_number = Undefined,
      body_notes = Undefined\<rparr>"

text \<open>The same product with 10 in stock.\<close>

definition contended_db :: db where
  "contended_db = example_db\<lparr>inventory := [example_row\<lparr>inv_quantity := 10\<rparr>]\<rparr>"

section \<open>Decimal text reads back\<close>

lemma digit_char_char_of: "d < 10 \<Longrightarrow> digit_char (char_of (48 + (d::nat)))"
  by (simp add: digit_char_def)

lemma decimal_nat_digits: "list_all digit_char (decimal_nat n)"
proof (induction n rule: decimal_nat.induct)
  case (1 n)
  show ?case
  proof (cases "n < 10")
    case True
    then show ?thesis by (simp add: decimal_nat.simps [of n] digit_char_char_of)
  next
    case False
    with 1 show ?thesis by (simp add: decimal_nat.simps [of n] digit_char_char_of)
  qed
qed

lemma decimal_nat_nonempty: "decimal_nat n \<noteq> []"
  by (simp add: decimal_nat.simps [of n])

lemma digit_of_digit_char: "digit_char ch \<Longrightarrow> digit_of 10 ch = Some (digit_val ch)"
  by (auto simp: digit_char_def digit_of_def digit_val_def Let_def)

lemma digits_value_snoc: "digits_value R (ds @ [d]) = digits_value R ds * R + d"
  by (simp add: digits_value_def)

lemma decimal_nat_value: "decimal_value (decimal_nat n) = n"
proof (induction n rule: decimal_nat.induct)
  case (1 n)
  show ?case
  proof (cases "n < 10")
    case True
    then show ?thesis
      by (simp add: decimal_nat.simps [of n] decimal_value_def digits_value_def digit_val_def)
  next
    case False
    with 1 show ?thesis
      by (simp add: decimal_nat.simps [of n] decimal_value_def digits_value_snoc digit_val_def)
  qed
qed

lemma digit_char_not_space: "digit_char ch \<Longrightarrow> \<not> StrWhiteSpaceChar ch \<and> \<not> isspace ch"
  by (auto simp: digit_char_def StrWhiteSpaceChar_def isspace_def)

lemma digit_char_neq:
  "digit_char ch \<Longrightarrow> ch \<noteq> CHR ''+'' \<and> ch \<noteq> CHR ''-'' \<and> ch \<noteq> CHR ''_'' \<and>
     ch \<notin> {CHR ''x'', CHR ''X'', CHR ''o'', CHR ''O'', CHR ''b'', CHR ''B''}"
  by (auto simp: digit_char_def)

lemma digits_prefix_then:
  assumes "list_all digit_char ds" and "ends_number t"
  shows "digits_prefix 10 (ds @ t) = map digit_val ds"
  using assms
  by (induction ds) (auto simp: digit_of_digit_char ends_number_def split: list.splits)

lemma pg_digits_then:
  assumes "list_all digit_char ds" and "ends_number t"
  shows "pg_digits 10 (ds @ t) = Some (map digit_val ds, t)"
  using assms
  by (induction ds) (auto simp: digit_of_digit_char ends_number_def split: list.splits)

lemma no_radix_prefix:
  assumes "ds \<noteq> []" and "list_all digit_char ds" and "ends_number t"
  shows "take 2 (ds @ t) \<notin> {''0x'', ''0X'', ''0o'', ''0O'', ''0b'', ''0B''}"
proof (cases ds)
  case Nil
  with assms(1) show ?thesis by simp
next
  case (Cons c cs)
  show ?thesis
  proof (cases cs)
    case Nil
    with Cons assms(3) show ?thesis
      by (cases t) (auto simp: ends_number_def)
  next
    case (Cons c' cs')
    with \<open>ds = c # cs\<close> assms(2) have "digit_char c'" by simp
    from digit_char_neq [OF this] Cons \<open>ds = c # cs\<close> show ?thesis by auto
  qed
qed

lemma signed_head:
  assumes "sg = [] \<or> sg = ''-'' \<or> sg = ''+''" and "ds \<noteq> []" and "list_all digit_char ds"
  shows "dropWhile StrWhiteSpaceChar (sg @ ds @ t) = sg @ ds @ t"
    and "dropWhile isspace (sg @ ds @ t) = sg @ ds @ t"
    and "(if take 1 (sg @ ds @ t) = ''+'' \<or> take 1 (sg @ ds @ t) = ''-''
          then drop 1 (sg @ ds @ t) else sg @ ds @ t) = ds @ t"
    and "(take 1 (sg @ ds @ t) = ''-'') = (sg = ''-'')"
    and "take 1 (ds @ t) \<noteq> ''_''"
proof -
  obtain c cs where ds: "ds = c # cs" using assms(2) by (cases ds) auto
  have c: "digit_char c" using assms(3) ds by simp
  note facts = digit_char_not_space [OF c] digit_char_neq [OF c]
  have sp: "\<not> StrWhiteSpaceChar CHR ''-''" "\<not> StrWhiteSpaceChar CHR ''+''"
    "\<not> isspace CHR ''-''" "\<not> isspace CHR ''+''"
    by (simp_all add: StrWhiteSpaceChar_def isspace_def)
  show "dropWhile StrWhiteSpaceChar (sg @ ds @ t) = sg @ ds @ t"
    using assms(1) ds facts sp by auto
  show "dropWhile isspace (sg @ ds @ t) = sg @ ds @ t"
    using assms(1) ds facts sp by auto
  show "(if take 1 (sg @ ds @ t) = ''+'' \<or> take 1 (sg @ ds @ t) = ''-''
          then drop 1 (sg @ ds @ t) else sg @ ds @ t) = ds @ t"
    using assms(1) ds facts by auto
  show "(take 1 (sg @ ds @ t) = ''-'') = (sg = ''-'')"
    using assms(1) ds facts by auto
  show "take 1 (ds @ t) \<noteq> ''_''"
    using ds facts by auto
qed

lemma parseInt_string_signed:
  assumes "sg = [] \<or> sg = ''-'' \<or> sg = ''+''" and "ds \<noteq> []" and "list_all digit_char ds"
    and "ends_number t"
  shows "parseInt_string (sg @ ds @ t) =
     Num ((if sg = ''-'' then - 1 else 1) * int (decimal_value ds))"
proof -
  note h = signed_head [OF assms(1-3), of t]
  have p: "take 2 (ds @ t) \<noteq> ''0x''" "take 2 (ds @ t) \<noteq> ''0X''"
    using no_radix_prefix [OF assms(2-4)] by auto
  have z: "digits_prefix 10 (ds @ t) = map digit_val ds"
    by (rule digits_prefix_then [OF assms(3,4)])
  show ?thesis
    unfolding parseInt_string_def Let_def h(1) h(3)
    unfolding h(4)
    using p assms(2) by (simp add: z decimal_value_def)
qed

lemma int4in_signed:
  assumes "sg = [] \<or> sg = ''-'' \<or> sg = ''+''" and "ds \<noteq> []" and "list_all digit_char ds"
    and "ends_number t"
  shows "int4in (sg @ ds @ t) =
     (if dropWhile isspace t = [] \<and>
         int4_range ((if sg = ''-'' then - 1 else 1) * int (decimal_value ds))
      then Some ((if sg = ''-'' then - 1 else 1) * int (decimal_value ds)) else None)"
proof -
  note h = signed_head [OF assms(1-3), of t]
  have p: "take 2 (ds @ t) \<noteq> ''0x''" "take 2 (ds @ t) \<noteq> ''0X''"
    "take 2 (ds @ t) \<noteq> ''0o''" "take 2 (ds @ t) \<noteq> ''0O''"
    "take 2 (ds @ t) \<noteq> ''0b''" "take 2 (ds @ t) \<noteq> ''0B''"
    using no_radix_prefix [OF assms(2-4)] by auto
  have R: "(if take 2 (ds @ t) = ''0x'' \<or> take 2 (ds @ t) = ''0X'' then 16
        else if take 2 (ds @ t) = ''0o'' \<or> take 2 (ds @ t) = ''0O'' then 8
        else if take 2 (ds @ t) = ''0b'' \<or> take 2 (ds @ t) = ''0B'' then 2
        else 10 :: nat) = 10"
    using p by simp
  have g: "pg_digits 10 (ds @ t) = Some (map digit_val ds, t)"
    by (rule pg_digits_then [OF assms(3,4)])
  show ?thesis
    unfolding int4in_def Let_def h(2) h(3) R
    unfolding h(4)
    using h(5) assms(2) by (simp add: g decimal_value_def)
qed

lemma parseInt_string_no_digit:
  assumes "\<not> StrWhiteSpaceChar c" and "c \<noteq> CHR ''+''" and "c \<noteq> CHR ''-''"
    and "c \<noteq> CHR ''0''" and "digit_of 10 c = None"
  shows "parseInt_string (c # cs) = NaN"
proof -
  have ws: "dropWhile StrWhiteSpaceChar (c # cs) = c # cs" using assms(1) by simp
  have t2: "take 2 (c # cs) \<noteq> ''0x''" "take 2 (c # cs) \<noteq> ''0X''"
    using assms(4) by (cases cs; simp)+
  show ?thesis
    unfolding parseInt_string_def ws Let_def using assms(2-5) by simp
qed

lemma parseInt_string_Nil: "parseInt_string [] = NaN"
  by (simp add: parseInt_string_def)

lemma ends_number_Nil: "ends_number []"
  by (simp add: ends_number_def)

lemma parseInt_string_decimal_int: "parseInt_string (decimal_int n) = Num n"
proof (cases "n < 0")
  case True
  have "parseInt_string (''-'' @ decimal_nat (nat (- n)) @ []) =
      Num ((if ''-'' = ''-'' then - 1 else 1) * int (decimal_value (decimal_nat (nat (- n)))))"
    by (rule parseInt_string_signed) (simp_all add: decimal_nat_nonempty decimal_nat_digits ends_number_Nil)
  with True show ?thesis by (simp add: decimal_int_def decimal_nat_value)
next
  case False
  have "parseInt_string ([] @ decimal_nat (nat n) @ []) =
      Num ((if [] = ''-'' then - 1 else 1) * int (decimal_value (decimal_nat (nat n))))"
    by (rule parseInt_string_signed) (simp_all add: decimal_nat_nonempty decimal_nat_digits ends_number_Nil)
  with False show ?thesis by (simp add: decimal_int_def decimal_nat_value)
qed

lemma int4in_decimal_int [simp]: "int4in (decimal_int n) = (if int4_range n then Some n else None)"
proof (cases "n < 0")
  case True
  have "int4in (''-'' @ decimal_nat (nat (- n)) @ []) =
     (if dropWhile isspace [] = [] \<and>
         int4_range ((if ''-'' = ''-'' then - 1 else 1) * int (decimal_value (decimal_nat (nat (- n)))))
      then Some ((if ''-'' = ''-'' then - 1 else 1) * int (decimal_value (decimal_nat (nat (- n)))))
      else None)"
    by (rule int4in_signed) (simp_all add: decimal_nat_nonempty decimal_nat_digits ends_number_Nil)
  with True show ?thesis by (simp add: decimal_int_def decimal_nat_value)
next
  case False
  have "int4in ([] @ decimal_nat (nat n) @ []) =
     (if dropWhile isspace [] = [] \<and>
         int4_range ((if [] = ''-'' then - 1 else 1) * int (decimal_value (decimal_nat (nat n))))
      then Some ((if [] = ''-'' then - 1 else 1) * int (decimal_value (decimal_nat (nat n))))
      else None)"
    by (rule int4in_signed) (simp_all add: decimal_nat_nonempty decimal_nat_digits ends_number_Nil)
  with False show ?thesis by (simp add: decimal_int_def decimal_nat_value)
qed

lemma number_text_small: "\<bar>n\<bar> < 1000000000000000000000 \<Longrightarrow> number_text n = decimal_int n"
  by (simp add: number_text_def)

lemma int4_range_small: "int4_range n \<Longrightarrow> \<bar>n\<bar> < 1000000000000000000000"
  unfolding int4_range_def by arith

lemma parseInt_Number [simp]:
  "\<bar>n\<bar> < 1000000000000000000000 \<Longrightarrow> parseInt (Number n) = Num n"
  by (simp add: parseInt_def Number_def number_text_small parseInt_string_decimal_int)

lemma ToString_Number [simp]:
  "\<bar>n\<bar> < 1000000000000000000000 \<Longrightarrow> ToString (Number n) = decimal_int n"
  by (simp add: Number_def number_text_small)

lemma driver_text_Number [simp]:
  "\<bar>n\<bar> < 1000000000000000000000 \<Longrightarrow> driver_text (Number n) = Some (decimal_int n)"
  by (simp add: Number_def number_text_small)

lemma bind_number_Num [simp]: "bind_number (Num n) = (if int4_range n then Some n else None)"
  by simp

lemma bind_integer_Number [simp]:
  "\<bar>n\<bar> < 1000000000000000000000 \<Longrightarrow>
   bind_integer (Number n) = (if int4_range n then Some n else None)"
  by (simp add: bind_integer_def)

lemma decimal_int_0: "decimal_int 0 = ''0''"
proof -
  have "(of_char CHR ''0'' :: nat) = 48" by simp
  then have "char_of (48 :: nat) = CHR ''0''" by (metis char_of_char)
  then show ?thesis by (simp add: decimal_int_def decimal_nat.simps [of 0])
qed

lemma parseInt_string_0: "parseInt_string ''0'' = Num 0"
  using parseInt_string_decimal_int [of 0] by (simp add: decimal_int_0)

lemma parseInt_string_NaN_text: "parseInt_string ''NaN'' = NaN"
  by (rule parseInt_string_no_digit) (simp_all add: StrWhiteSpaceChar_def digit_of_def)

lemma falsy_Number [simp]:
  assumes "\<bar>n\<bar> < 1000000000000000000000"
  shows "falsy (Number n) = (n = 0)"
proof -
  have "decimal_int n \<noteq> ''NaN''"
    using parseInt_string_decimal_int [of n] parseInt_string_NaN_text by auto
  moreover have "decimal_int n = ''0'' \<longleftrightarrow> n = 0"
    using parseInt_string_decimal_int [of n] parseInt_string_0 decimal_int_0 by auto
  ultimately show ?thesis using assms by (simp add: Number_def number_text_small)
qed

lemma Number_0: "Number 0 = NumberText ''0''"
  by (simp add: Number_def number_text_small decimal_int_0)

text \<open>The number \<^verbatim>\<open>1e21\<close>: its text is in the exponent form, of which \<^verbatim>\<open>parseInt\<close> reads 1.\<close>

lemma Number_1e21: "Number 1000000000000000000000 = NumberText ''1e+21''"
  by (simp add: Number_def number_text_def exponent_text_def significant_def decimal_nat.simps
      char_of_def Let_def bit_Suc_0_iff)

lemma parseInt_string_1e21: "parseInt_string ''1e+21'' = Num 1"
  using parseInt_string_signed [of "[]" "''1''" "''e+21''"]
  by (simp add: ends_number_def digit_of_def digit_char_def decimal_value_def digits_value_def
      digit_val_def)

lemma int4in_1e21: "int4in ''1e+21'' = None"
  using int4in_signed [of "[]" "''1''" "''e+21''"]
  by (simp add: ends_number_def digit_of_def digit_char_def isspace_def)

lemma parseInt_1e21: "parseInt (Number 1000000000000000000000) = Num 1"
  by (simp add: Number_1e21 parseInt_def parseInt_string_1e21)

section \<open>Parameters, constructor by constructor\<close>

lemma bind_integer_simps [simp]:
  "bind_integer Undefined = None"
  "bind_integer Null = None"
  "bind_integer (Bool b) = int4in (if b then ''true'' else ''false'')"
  "bind_integer (NumberText t) = int4in t"
  "bind_integer (String s) = int4in s"
  "bind_integer (Object s t) = int4in t"
  by (simp_all add: bind_integer_def)

lemma bind_varchar_simps [simp]:
  "bind_varchar n Undefined = Some None"
  "bind_varchar n Null = Some None"
  "bind_varchar n (Bool b) = map_option Some (varchar n (if b then ''true'' else ''false''))"
  "bind_varchar n (NumberText t) = map_option Some (varchar n t)"
  "bind_varchar n (String s) = map_option Some (varchar n s)"
  "bind_varchar n (Object s t) = map_option Some (varchar n t)"
  by (simp_all add: bind_varchar_def)

lemma bind_text_simps [simp]:
  "bind_text Undefined = None"
  "bind_text Null = None"
  "bind_text (Bool b) = Some (if b then ''true'' else ''false'')"
  "bind_text (NumberText t) = Some t"
  "bind_text (String s) = Some s"
  "bind_text (Object s t) = Some t"
  by (simp_all add: bind_text_def)

section \<open>The handler, statement by statement\<close>

lemma client_eq: "(c :: client) = \<lparr>visible = visible c, work = work c\<rparr>"
  by simp

lemma begin_clean:
  assumes "current c = visible c"
  shows "query_begin c = \<lparr>visible = visible c, work = Some (visible c)\<rparr>"
proof (cases "work c")
  case None
  then show ?thesis by (simp add: query_begin_def)
next
  case (Some d)
  with assms have "d = visible c" by (simp add: current_def)
  with Some show ?thesis using client_eq [of c] by (simp add: query_begin_def)
qed

lemma current_connect: "current (connect d) = visible (connect d)"
  by (simp add: current_def connect_def)

lemma select_inventory_work:
  "select_inventory \<lparr>visible = d, work = Some d1\<rparr> s =
     (case int4in s of None \<Rightarrow> None
      | Some pid \<Rightarrow> Some (filter (\<lambda>r. inv_product_id r = Some pid) (inventory d1)))"
  by (simp add: select_inventory_def current_def split: option.splits)

lemma select_inventory_connect:
  "select_inventory (connect d) s =
     (case int4in s of None \<Rightarrow> None
      | Some pid \<Rightarrow> Some (filter (\<lambda>r. inv_product_id r = Some pid) (inventory d)))"
  by (simp add: select_inventory_def current_def connect_def split: option.splits)

lemma update_inventory_work:
  "update_inventory now \<lparr>visible = d, work = Some d1\<rparr> nq s =
     (case bind_number nq of None \<Rightarrow> None
      | Some n \<Rightarrow>
         (case int4in s of None \<Rightarrow> None
          | Some pid \<Rightarrow>
              Some \<lparr>visible = d,
                    work = Some (d1\<lparr>inventory := set_quantity now pid n (inventory d1)\<rparr>)\<rparr>))"
  by (simp add: update_inventory_def put_db_def current_def split: option.splits)

lemma insert_stock_movement_work:
  "insert_stock_movement now \<lparr>visible = d, work = Some d1\<rparr> s mt q rn nt =
     (case int4in s of None \<Rightarrow> None | Some pid \<Rightarrow>
     (case bind_varchar 50 mt of None \<Rightarrow> None | Some None \<Rightarrow> None | Some (Some mts) \<Rightarrow>
     (case bind_integer q of None \<Rightarrow> None | Some k \<Rightarrow>
     (case bind_varchar 100 rn of None \<Rightarrow> None | Some r \<Rightarrow>
        if pid \<in> set (map p_id (products d1))
        then Some \<lparr>visible = d, work = Some (d1\<lparr>stock_movements := stock_movements d1 @
              [\<lparr>sm_product_id = pid, sm_movement_type = mts, sm_quantity = k,
                sm_reference_number = r, sm_notes = bind_text nt, created_at = now\<rparr>]\<rparr>)\<rparr>
        else None))))"
  by (simp add: insert_stock_movement_def put_db_def current_def split: option.splits)

lemma query_commit_work: "query_commit \<lparr>visible = d, work = Some d1\<rparr> = connect d1"
  by (simp add: query_commit_def connect_def)

lemma query_rollback_work: "query_rollback \<lparr>visible = d, work = w\<rparr> = connect d"
  by (simp add: query_rollback_def connect_def)

lemmas adjust_unfold =
  adjust_client_def adjust_transaction_def select_inventory_work update_inventory_work
  insert_stock_movement_work query_commit_work query_rollback_work Let_def

lemma adjust_client_eq:
  assumes "current c = visible c"
  shows "adjust_client now c req =
     (if falsy (quantity req) \<or> falsy (movement_type req) then
        (\<lparr>status = 400, json = Error_json ''Quantity and movement type are required''\<rparr>, c)
      else
     (case int4in (productId req) of None \<Rightarrow> storage_error_client (visible c) | Some pid \<Rightarrow>
     (case filter (\<lambda>r. inv_product_id r = Some pid) (inventory (visible c)) of
        [] \<Rightarrow> (\<lparr>status = 404, json = Error_json ''Product inventory not found''\<rparr>,
               \<lparr>visible = visible c, work = Some (visible c)\<rparr>)
      | currentInventory # _ \<Rightarrow>
     (case new_quantity (movement_type req) (inv_quantity currentInventory) (quantity req) of
        Inl e \<Rightarrow> (\<lparr>status = 500, json = error_json e\<rparr>, connect (visible c))
      | Inr newQuantity \<Rightarrow>
     (case bind_number newQuantity of None \<Rightarrow> storage_error_client (visible c) | Some n \<Rightarrow>
     (case bind_varchar 50 (movement_type req) of
        None \<Rightarrow> storage_error_client (visible c)
      | Some None \<Rightarrow> storage_error_client (visible c)
      | Some (Some mts) \<Rightarrow>
     (case bind_integer (quantity req) of None \<Rightarrow> storage_error_client (visible c) | Some k \<Rightarrow>
     (case bind_varchar 100 (reference_number req) of
        None \<Rightarrow> storage_error_client (visible c)
      | Some r \<Rightarrow>
        if pid \<in> set (map p_id (products (visible c))) then
          (\<lparr>status = 200, json = Adjusted_json (inv_quantity currentInventory) newQuantity\<rparr>,
           connect ((visible c)\<lparr>inventory := set_quantity now pid n (inventory (visible c)),
             stock_movements := stock_movements (visible c) @
               [\<lparr>sm_product_id = pid, sm_movement_type = mts, sm_quantity = k,
                 sm_reference_number = r, sm_notes = bind_text (body_notes req),
                 created_at = now\<rparr>]\<rparr>))
        else storage_error_client (visible c)))))))))"
  by (simp add: adjust_unfold begin_clean [OF assms] storage_error_client_def
      split: option.splits list.splits sum.splits)

lemma adjust_eq:
  "adjust now d req =
     (if falsy (quantity req) \<or> falsy (movement_type req) then
        (\<lparr>status = 400, json = Error_json ''Quantity and movement type are required''\<rparr>, d)
      else
     (case int4in (productId req) of None \<Rightarrow> storage_error d | Some pid \<Rightarrow>
     (case filter (\<lambda>r. inv_product_id r = Some pid) (inventory d) of
        [] \<Rightarrow> (\<lparr>status = 404, json = Error_json ''Product inventory not found''\<rparr>, d)
      | currentInventory # _ \<Rightarrow>
     (case new_quantity (movement_type req) (inv_quantity currentInventory) (quantity req) of
        Inl e \<Rightarrow> (\<lparr>status = 500, json = error_json e\<rparr>, d)
      | Inr newQuantity \<Rightarrow>
     (case bind_number newQuantity of None \<Rightarrow> storage_error d | Some n \<Rightarrow>
     (case bind_varchar 50 (movement_type req) of
        None \<Rightarrow> storage_error d | Some None \<Rightarrow> storage_error d | Some (Some mts) \<Rightarrow>
     (case bind_integer (quantity req) of None \<Rightarrow> storage_error d | Some k \<Rightarrow>
     (case bind_varchar 100 (reference_number req) of None \<Rightarrow> storage_error d | Some r \<Rightarrow>
        if pid \<in> set (map p_id (products d)) then
          (\<lparr>status = 200, json = Adjusted_json (inv_quantity currentInventory) newQuantity\<rparr>,
           d\<lparr>inventory := set_quantity now pid n (inventory d),
             stock_movements := stock_movements d @
               [\<lparr>sm_product_id = pid, sm_movement_type = mts, sm_quantity = k,
                 sm_reference_number = r, sm_notes = bind_text (body_notes req),
                 created_at = now\<rparr>]\<rparr>)
        else storage_error d))))))))"
  unfolding adjust_def adjust_client_eq [OF current_connect]
  by (simp add: storage_error_client_def storage_error_def connect_def
      split: option.splits list.splits sum.splits)

lemma adjust_client_settled:
  assumes "current c = visible c"
  shows "current (snd (adjust_client now c req)) = visible (snd (adjust_client now c req))"
  using assms
  by (simp add: adjust_client_eq [OF assms] storage_error_client_def connect_def current_def
      split: option.splits list.splits sum.splits)

lemma adjust_client_committed:
  assumes "current c = visible c"
    and "visible (snd (adjust_client now c req)) \<noteq> visible c"
  shows "\<exists>pid currentInventory others newQuantity n mts k r.
      int4in (productId req) = Some pid \<and>
      filter (\<lambda>r. inv_product_id r = Some pid) (inventory (visible c)) = currentInventory # others \<and>
      new_quantity (movement_type req) (inv_quantity currentInventory) (quantity req) = Inr newQuantity \<and>
      bind_number newQuantity = Some n \<and>
      bind_varchar 50 (movement_type req) = Some (Some mts) \<and>
      bind_integer (quantity req) = Some k \<and>
      bind_varchar 100 (reference_number req) = Some r \<and>
      adjust_client now c req =
        (\<lparr>status = 200, json = Adjusted_json (inv_quantity currentInventory) newQuantity\<rparr>,
         connect ((visible c)\<lparr>inventory := set_quantity now pid n (inventory (visible c)),
           stock_movements := stock_movements (visible c) @
             [\<lparr>sm_product_id = pid, sm_movement_type = mts, sm_quantity = k,
               sm_reference_number = r, sm_notes = bind_text (body_notes req),
               created_at = now\<rparr>]\<rparr>))"
  using assms(2)
  by (auto simp: adjust_client_eq [OF assms(1)] storage_error_client_def connect_def
      split: option.splits list.splits sum.splits if_splits)

lemma falsy_parseInt:
  assumes "falsy v"
  shows "parseInt v = NaN \<or> v = Number 0"
proof (cases v)
  case Undefined
  have "parseInt_string ''undefined'' = NaN"
    by (rule parseInt_string_no_digit) (simp_all add: StrWhiteSpaceChar_def digit_of_def)
  with Undefined show ?thesis by (simp add: parseInt_def)
next
  case Null
  have "parseInt_string ''null'' = NaN"
    by (rule parseInt_string_no_digit) (simp_all add: StrWhiteSpaceChar_def digit_of_def)
  with Null show ?thesis by (simp add: parseInt_def)
next
  case (Bool b)
  have "parseInt_string ''false'' = NaN"
    by (rule parseInt_string_no_digit) (simp_all add: StrWhiteSpaceChar_def digit_of_def)
  with Bool assms show ?thesis by (simp add: parseInt_def)
next
  case (NumberText t)
  with assms have "t = ''0'' \<or> t = ''NaN''" by simp
  then show ?thesis
  proof
    assume "t = ''0''"
    with NumberText show ?thesis by (simp add: Number_0)
  next
    assume "t = ''NaN''"
    with NumberText show ?thesis by (simp add: parseInt_def parseInt_string_NaN_text)
  qed
next
  case (String s)
  with assms show ?thesis by (simp add: parseInt_def parseInt_string_Nil)
next
  case (Object s t)
  with assms show ?thesis by simp
qed

lemma parseInt_falsy:
  assumes "falsy v"
  shows "parseInt v = NaN \<or> parseInt v = Num 0"
  using falsy_parseInt [OF assms] by auto

lemma guarded_range:
  "(if a then None
    else case x of None \<Rightarrow> None
      | Some (ds, rest) \<Rightarrow> (if p ds \<and> q rest \<and> int4_range (f ds) then Some (f ds) else None)) =
     Some n \<Longrightarrow> int4_range n"
  by (auto split: if_splits option.splits)

lemma int4in_range: "int4in s = Some n \<Longrightarrow> int4_range n"
  unfolding int4in_def Let_def by (rule guarded_range)

lemma bind_integer_range:
  assumes "bind_integer v = Some n"
  shows "int4_range n"
proof (cases "driver_text v")
  case None
  with assms show ?thesis by (simp add: bind_integer_def)
next
  case (Some t)
  with assms have "int4in t = Some n" by (simp add: bind_integer_def)
  then show ?thesis by (rule int4in_range)
qed

lemma filter_set_quantity:
  "filter (\<lambda>r. inv_product_id r = Some pid) (set_quantity now pid n rows) =
     map (\<lambda>r. r\<lparr>inv_quantity := n, updated_at := now\<rparr>)
       (filter (\<lambda>r. inv_product_id r = Some pid) rows)"
  by (induction rows) (simp_all add: set_quantity_def)

lemma adjust_success:
  assumes "\<not> falsy (quantity req)" and "\<not> falsy (movement_type req)"
    and "select_inventory (connect d) (productId req) = Some (currentInventory # others)"
    and "int4in (productId req) = Some pid"
    and "new_quantity (movement_type req) (inv_quantity currentInventory) (quantity req) = Inr (Num m)"
    and "int4_range m"
    and "bind_varchar 50 (movement_type req) = Some (Some mts)"
    and "bind_integer (quantity req) = Some k"
    and "bind_varchar 100 (reference_number req) = Some r"
    and "pid \<in> set (map p_id (products d))"
  shows "adjust now d req =
      (\<lparr>status = 200, json = Adjusted_json (inv_quantity currentInventory) (Num m)\<rparr>,
       d\<lparr>inventory := set_quantity now pid m (inventory d),
         stock_movements := stock_movements d @
           [\<lparr>sm_product_id = pid, sm_movement_type = mts, sm_quantity = k,
             sm_reference_number = r, sm_notes = bind_text (body_notes req),
             created_at = now\<rparr>]\<rparr>)"
  using assms by (simp add: adjust_eq select_inventory_connect)

lemma adjust_client_split:
  "adjust_client now c req =
     (case adjust_until_write c req of
        (Inl res, c') \<Rightarrow> (res, c')
      | (Inr pending, c') \<Rightarrow> adjust_from_write now c' req pending)"
  by (simp add: adjust_client_def adjust_transaction_def adjust_until_write_def
      adjust_from_write_def Let_def split: option.splits list.splits sum.splits)

lemma adjust_NaN_unchanged:
  assumes "\<not> falsy (quantity req)" and "\<not> falsy (movement_type req)"
    and "parseInt (quantity req) = NaN"
  shows "snd (adjust now d req) = d \<and> status (fst (adjust now d req)) \<in> {404, 500}"
  using assms
  by (simp add: adjust_eq storage_error_def new_quantity_def
      split: option.splits list.splits)

section \<open>Particular texts and the example store\<close>

lemma int4in_1: "int4in ''1'' = Some 1"
  using int4in_signed [of "[]" "''1''" "[]"]
  by (simp add: ends_number_def digit_char_def decimal_value_def digits_value_def digit_val_def
      int4_range_def)

lemma int4in_zero_text: "int4in ''0'' = Some 0"
  using int4in_signed [of "[]" "''0''" "[]"]
  by (simp add: ends_number_def digit_char_def decimal_value_def digits_value_def digit_val_def
      int4_range_def)

lemma parseInt_zero_text: "parseInt (String ''0'') = Num 0"
  by (simp add: parseInt_def parseInt_string_0)

lemma ends_number_point: "ends_number (CHR ''.'' # rest)"
  by (simp add: ends_number_def digit_of_def)

lemma point_not_space: "dropWhile isspace (CHR ''.'' # rest) \<noteq> []"
  by (simp add: isspace_def)

lemma parseInt_string_6_9: "parseInt_string ''6.9'' = Num 6"
  using parseInt_string_signed [of "[]" "''6''" "''.9''"]
  by (simp add: ends_number_point digit_char_def decimal_value_def digits_value_def digit_val_def)

lemma int4in_6_9: "int4in ''6.9'' = None"
  using int4in_signed [of "[]" "''6''" "''.9''"]
  by (simp add: ends_number_point digit_char_def isspace_def)

lemma parseInt_string_50_5: "parseInt_string ''50.5'' = Num 50"
  using parseInt_string_signed [of "[]" "''50''" "''.5''"]
  by (simp add: ends_number_point digit_char_def decimal_value_def digits_value_def digit_val_def)

lemma int4in_50_5: "int4in ''50.5'' = None"
  using int4in_signed [of "[]" "''50''" "''.5''"]
  by (simp add: ends_number_point digit_char_def isspace_def)

lemma parseInt_abc: "parseInt (String ''abc'') = NaN"
  unfolding parseInt_def ToString.simps
  by (rule parseInt_string_no_digit) (simp_all add: StrWhiteSpaceChar_def digit_of_def)

lemma parseInt_string_grouped: "parseInt_string ''1_000'' = Num 1"
  by (simp add: parseInt_string_def StrWhiteSpaceChar_def digit_of_def digits_value_def)

lemma int4in_grouped: "int4in ''1_000'' = Some 1000"
  by (simp add: int4in_def isspace_def digit_of_def digits_value_def int4_range_def)

lemma select_example:
  "select_inventory (connect example_db) (productId (example_request q mt)) = Some [example_row]"
  by (simp add: example_request_def example_db_def example_row_def select_inventory_connect int4in_1)

text \<open>
  An \<^verbatim>\<open>OUT\<close> of the number \<^verbatim>\<open>1e21\<close> on a quantity of 50: \<^verbatim>\<open>parseInt\<close> reads 1, the stock
  check passes, and the \<^verbatim>\<open>INSERT\<close> refuses the text \<^verbatim>\<open>1e+21\<close>.
\<close>

lemma adjust_OUT_1e21:
  "adjust 7 example_db (example_request (Number 1000000000000000000000) (String ''OUT'')) =
     (\<lparr>status = 500, json = Database_error_json\<rparr>, example_db)"
  by (simp add: Number_1e21 adjust_eq storage_error_def example_request_def example_db_def int4in_1
      new_quantity_def parseInt_def parseInt_string_1e21 bind_integer_def int4in_1e21
      int4_range_def bind_varchar_def varchar_def)

lemma adjust_grouped_digits_disagree:
  "adjust 7 example_db (example_request (String ''1_000'') (String ''IN'')) =
     (\<lparr>status = 200, json = Adjusted_json 50 (Num 51)\<rparr>,
      example_db\<lparr>inventory := [example_row\<lparr>inv_quantity := 51, updated_at := 7\<rparr>],
         stock_movements :=
           [\<lparr>sm_product_id = 1, sm_movement_type = ''IN'', sm_quantity = 1000,
             sm_reference_number = None, sm_notes = None, created_at = 7\<rparr>]\<rparr>)"
  by (simp add: adjust_eq storage_error_def example_request_def example_db_def example_row_def
      int4in_1 new_quantity_def parseInt_def parseInt_string_grouped bind_integer_def
      int4in_grouped int4_range_def bind_varchar_def bind_text_def varchar_def set_quantity_def)

section \<open>The two parts of a call on the contended product\<close>

lemma select_contended:
  "select_inventory \<lparr>visible = contended_db, work = Some contended_db\<rparr> ''1'' =
     Some [example_row\<lparr>inv_quantity := 10\<rparr>]"
  by (simp add: select_inventory_work int4in_1 contended_db_def example_db_def example_row_def)

lemma until_write_contended:
  "adjust_until_write (connect contended_db) (example_request (Number 6) (String ''OUT'')) =
     (Inr (example_row\<lparr>inv_quantity := 10\<rparr>, Num 4),
      \<lparr>visible = contended_db, work = Some contended_db\<rparr>)"
  unfolding adjust_until_write_def Let_def begin_clean [OF current_connect]
  by (simp add: connect_def example_request_def select_contended new_quantity_def
      example_row_def)

lemma from_write_contended:
  assumes "products d = products example_db"
  shows "adjust_from_write now \<lparr>visible = d, work = Some d\<rparr>
       (example_request (Number 6) (String ''OUT'')) (example_row\<lparr>inv_quantity := 10\<rparr>, Num 4) =
     (\<lparr>status = 200, json = Adjusted_json 10 (Num 4)\<rparr>,
      connect (d\<lparr>inventory := set_quantity now 1 4 (inventory d),
        stock_movements := stock_movements d @
          [\<lparr>sm_product_id = 1, sm_movement_type = ''OUT'', sm_quantity = 6,
            sm_reference_number = None, sm_notes = None, created_at = now\<rparr>]\<rparr>))"
  using assms
  by (simp add: adjust_from_write_def update_inventory_work insert_stock_movement_work
      query_commit_work example_request_def int4in_1 int4_range_def varchar_def
      example_db_def example_row_def)

lemma adjust_in_turn_one_success:
  "adjust 7 contended_db (example_request (Number 6) (String ''OUT'')) =
     (\<lparr>status = 200, json = Adjusted_json 10 (Num 4)\<rparr>,
      contended_db\<lparr>inventory := [example_row\<lparr>inv_quantity := 4, updated_at := 7\<rparr>],
        stock_movements :=
          [\<lparr>sm_product_id = 1, sm_movement_type = ''OUT'', sm_quantity = 6,
             sm_reference_number = None, sm_notes = None, created_at = 7\<rparr>]\<rparr>) \<and>
   adjust 8 (snd (adjust 7 contended_db (example_request (Number 6) (String ''OUT''))))
     (example_request (Number 6) (String ''OUT'')) =
     (\<lparr>status = 500, json = Error_json ''Insufficient stock''\<rparr>,
      snd (adjust 7 contended_db (example_request (Number 6) (String ''OUT''))))"
proof -
  have first: "adjust 7 contended_db (example_request (Number 6) (String ''OUT'')) =
     (\<lparr>status = 200, json = Adjusted_json 10 (Num 4)\<rparr>,
      contended_db\<lparr>inventory := [example_row\<lparr>inv_quantity := 4, updated_at := 7\<rparr>],
        stock_movements :=
          [\<lparr>sm_product_id = 1, sm_movement_type = ''OUT'', sm_quantity = 6,
             sm_reference_number = None, sm_notes = None, created_at = 7\<rparr>]\<rparr>)"
    by (simp add: adjust_eq storage_error_def example_request_def contended_db_def example_db_def
        example_row_def int4in_1 new_quantity_def int4_range_def varchar_def set_quantity_def)
  have second: "adjust 8 (contended_db\<lparr>inventory := [example_row\<lparr>inv_quantity := 4, updated_at := 7\<rparr>],
        stock_movements :=
          [\<lparr>sm_product_id = 1, sm_movement_type = ''OUT'', sm_quantity = 6,
             sm_reference_number = None, sm_notes = None, created_at = 7\<rparr>]\<rparr>)
       (example_request (Number 6) (String ''OUT'')) =
     (\<lparr>status = 500, json = Error_json ''Insufficient stock''\<rparr>,
      contended_db\<lparr>inventory := [example_row\<lparr>inv_quantity := 4, updated_at := 7\<rparr>],
        stock_movements :=
          [\<lparr>sm_product_id = 1, sm_movement_type = ''OUT'', sm_quantity = 6,
             sm_reference_number = None, sm_notes = None, created_at = 7\<rparr>]\<rparr>)"
    by (simp add: adjust_eq storage_error_def example_request_def contended_db_def example_db_def
        example_row_def int4in_1 new_quantity_def)
  show ?thesis unfolding first using second by simp
qed

section \<open>The joins of the low-stock query\<close>

lemma filter_key_one:
  assumes "distinct (map k xs)" and "x \<in> set xs"
  shows "filter (\<lambda>y. Some (k x) = Some (k y)) xs = [x]"
  using assms
proof (induction xs)
  case Nil
  then show ?case by simp
next
  case (Cons a xs)
  show ?case
  proof (cases "a = x")
    case True
    have "filter (\<lambda>y. k x = k y) xs = []"
      using Cons.prems(1) True by (auto simp: filter_empty_conv)
    with True show ?thesis by simp
  next
    case False
    with Cons.prems have "x \<in> set xs" "k a \<noteq> k x" by auto
    with Cons show ?thesis by auto
  qed
qed

lemma filter_key_at_most_one:
  assumes "distinct (map k xs)"
  shows "filter (\<lambda>y. v = Some (k y)) xs = [] \<or> (\<exists>x. filter (\<lambda>y. v = Some (k y)) xs = [x])"
proof (cases "\<exists>x \<in> set xs. v = Some (k x)")
  case True
  then obtain x where "x \<in> set xs" "v = Some (k x)" by blast
  with filter_key_one [OF assms, of x] show ?thesis by auto
next
  case False
  then show ?thesis by (auto simp: filter_empty_conv)
qed

lemma left_join_categories_one:
  assumes "distinct (map c_id (categories d))"
  shows "\<exists>cn. left_join_categories d p = [cn]"
  using filter_key_at_most_one [OF assms, of "p_category_id p"]
  by (auto simp: left_join_categories_def)

lemma join_products_one:
  assumes "distinct (map p_id (products d))"
    and "p \<in> set (products d)" and "inv_product_id i = Some (p_id p)"
  shows "join_products d i = [p]"
  using filter_key_one [OF assms(1,2)] assms(3) by (simp add: join_products_def)

lemma inv_joined_rows:
  assumes "distinct (map p_id (products d))"
    and "distinct (map c_id (categories d))"
    and "\<forall>i \<in> set (inventory d). \<exists>p \<in> set (products d). inv_product_id i = Some (p_id p)"
  shows "map inventory_columns (joined_rows d) = inventory d"
proof -
  have one: "map inventory_columns (concat (map (\<lambda>p. map (\<lambda>cn.
        \<lparr>inventory_columns = i, product_name = p_name p, row_sku = sku p, row_price = price p,
          category_name = cn\<rparr>) (left_join_categories d p)) (join_products d i))) = [i]"
    if "i \<in> set (inventory d)" for i
  proof -
    from that assms(3) obtain p where p: "p \<in> set (products d)" "inv_product_id i = Some (p_id p)"
      by blast
    obtain cn where cn: "left_join_categories d p = [cn]"
      using left_join_categories_one [OF assms(2)] by blast
    show ?thesis by (simp add: join_products_one [OF assms(1) p] cn)
  qed
  have "map inventory_columns (joined_rows d) = concat (map (\<lambda>i. [i]) (inventory d))"
    unfolding joined_rows_def map_concat map_map
    by (rule arg_cong [where f = concat], rule map_cong [OF refl]) (simp add: one)
  then show ?thesis by simp
qed

section \<open>Properties of the ledger engine\<close>

text \<open>
  Claim C1 fails on the code. On a quantity of 50, an \<^verbatim>\<open>IN\<close> of \<open>-60\<close> commits the
  quantity \<open>-10\<close>, and an \<^verbatim>\<open>ADJUSTMENT\<close> to \<open>-5\<close> commits \<open>-5\<close>: only the \<^verbatim>\<open>OUT\<close>
  branch checks the new quantity against zero.
\<close>

theorem adjust_negative_quantity_committed:
  "adjust 7 example_db (example_request (Number (- 60)) (String ''IN'')) =
     (\<lparr>status = 200, json = Adjusted_json 50 (Num (- 10))\<rparr>,
      example_db\<lparr>inventory := [example_row\<lparr>inv_quantity := - 10, updated_at := 7\<rparr>],
         stock_movements :=
           [\<lparr>sm_product_id = 1, sm_movement_type = ''IN'', sm_quantity = - 60,
             sm_reference_number = None, sm_notes = None, created_at = 7\<rparr>]\<rparr>) \<and>
   adjust 7 example_db (example_request (Number (- 5)) (String ''ADJUSTMENT'')) =
     (\<lparr>status = 200, json = Adjusted_json 50 (Num (- 5))\<rparr>,
      example_db\<lparr>inventory := [example_row\<lparr>inv_quantity := - 5, updated_at := 7\<rparr>],
         stock_movements :=
           [\<lparr>sm_product_id = 1, sm_movement_type = ''ADJUSTMENT'', sm_quantity = - 5,
             sm_reference_number = None, sm_notes = None, created_at = 7\<rparr>]\<rparr>) \<and>
   map inv_quantity (inventory example_db) = [50]"
  by (simp add: adjust_eq storage_error_def example_request_def example_db_def example_row_def
      int4in_1 new_quantity_def int4_range_def varchar_def set_quantity_def)

text \<open>
  Claim C2, as amended. An \<^verbatim>\<open>OUT\<close> movement that passes the presence check, on a
  product that has an inventory row, whose quantity as \<^verbatim>\<open>parseInt\<close> reads it exceeds
  the current quantity (\<open>current - parseInt(quantity) < 0\<close>), is answered with the error
  \<^verbatim>\<open>Insufficient stock\<close>. The client goes back to the pool rolled back, with no
  transaction open, and the committed state is the one before the call: the quantity
  is unchanged and no movement row is appended.
\<close>

theorem adjust_OUT_insufficient_stock:
  assumes "movement_type req = String ''OUT''"
    and "\<not> falsy (quantity req)"
    and "select_inventory (connect d) (productId req) = Some (currentInventory # others)"
    and "parseInt (quantity req) = Num q"
    and "inv_quantity currentInventory - q < 0"
  shows "adjust_client now (connect d) req =
      (\<lparr>status = 500, json = Error_json ''Insufficient stock''\<rparr>, connect d) \<and>
     adjust now d req = (\<lparr>status = 500, json = Error_json ''Insufficient stock''\<rparr>, d)"
proof -
  have rows: "\<exists>pid. int4in (productId req) = Some pid \<and>
      filter (\<lambda>r. inv_product_id r = Some pid) (inventory d) = currentInventory # others"
    using assms(3) by (simp add: select_inventory_connect split: option.splits)
  have nq: "new_quantity (movement_type req) (inv_quantity currentInventory) (quantity req) =
      Inl (Error ''Insufficient stock'')"
    using assms(1,4,5) by (simp add: new_quantity_def)
  have mt: "\<not> falsy (movement_type req)" using assms(1) by simp
  have "adjust_client now (connect d) req =
      (\<lparr>status = 500, json = Error_json ''Insufficient stock''\<rparr>, connect d)"
    unfolding adjust_client_eq [OF current_connect]
    using rows nq mt assms(2) by (auto simp: connect_def)
  then show ?thesis by (simp add: adjust_def connect_def)
qed

text \<open>Witness for claim C2, scenario B: \<^verbatim>\<open>OUT\<close> of 60 on a quantity of 50 fails and leaves
  the quantity at 50.\<close>

theorem adjust_OUT_insufficient_stock_witness:
  "adjust_client 7 (connect example_db) (example_request (Number 60) (String ''OUT'')) =
     (\<lparr>status = 500, json = Error_json ''Insufficient stock''\<rparr>, connect example_db) \<and>
   adjust 7 example_db (example_request (Number 60) (String ''OUT'')) =
     (\<lparr>status = 500, json = Error_json ''Insufficient stock''\<rparr>, example_db) \<and>
   map inv_quantity (inventory example_db) = [50] \<and> stock_movements example_db = []"
proof -
  let ?req = "example_request (Number 60) (String ''OUT'')"
  have h1: "movement_type ?req = String ''OUT''" by (simp add: example_request_def)
  have h2: "\<not> falsy (quantity ?req)" by (simp add: example_request_def)
  have h3: "select_inventory (connect example_db) (productId ?req) = Some (example_row # [])"
    by (rule select_example)
  have h4: "parseInt (quantity ?req) = Num 60" by (simp add: example_request_def)
  have h5: "inv_quantity example_row - 60 < 0" by (simp add: example_row_def)
  show ?thesis
    using adjust_OUT_insufficient_stock [OF h1 h2 h3 h4 h5, of 7]
    by (simp add: example_db_def)
qed

text \<open>
  Claim C2 as stated fails. An \<^verbatim>\<open>OUT\<close> of \<open>50.5\<close> on a quantity of 50 exceeds the
  stock, but \<^verbatim>\<open>parseInt\<close> reads 50: the check passes and the call fails at the
  \<^verbatim>\<open>INSERT\<close> with the driver's error. And on the quantity \<open>-10\<close> that an \<^verbatim>\<open>IN\<close> of
  \<open>-60\<close> commits, an \<^verbatim>\<open>OUT\<close> of the number \<open>0\<close> is answered 400 by the presence
  check.
\<close>

theorem adjust_OUT_exceeding_other_failures:
  "adjust 7 example_db (example_request (NumberText ''50.5'') (String ''OUT'')) =
     (\<lparr>status = 500, json = Database_error_json\<rparr>, example_db) \<and>
   map inv_quantity
     (inventory (snd (adjust 7 example_db (example_request (Number (- 60)) (String ''IN''))))) =
     [- 10] \<and>
   adjust 8 (snd (adjust 7 example_db (example_request (Number (- 60)) (String ''IN''))))
     (example_request (Number 0) (String ''OUT'')) =
     (\<lparr>status = 400, json = Error_json ''Quantity and movement type are required''\<rparr>,
      snd (adjust 7 example_db (example_request (Number (- 60)) (String ''IN''))))"
proof -
  have a: "adjust 7 example_db (example_request (NumberText ''50.5'') (String ''OUT'')) =
     (\<lparr>status = 500, json = Database_error_json\<rparr>, example_db)"
    by (simp add: adjust_eq storage_error_def example_request_def example_db_def int4in_1
        new_quantity_def parseInt_def parseInt_string_50_5 bind_integer_def int4in_50_5
        int4_range_def bind_varchar_def varchar_def)
  have b: "map inv_quantity
     (inventory (snd (adjust 7 example_db (example_request (Number (- 60)) (String ''IN''))))) =
     [- 10]"
    by (simp add: adjust_eq storage_error_def example_request_def example_db_def int4in_1
        new_quantity_def int4_range_def bind_varchar_def varchar_def set_quantity_def)
  have c: "adjust 8 d (example_request (Number 0) (String ''OUT'')) =
     (\<lparr>status = 400, json = Error_json ''Quantity and movement type are required''\<rparr>, d)" for d
    by (simp add: adjust_eq example_request_def)
  show ?thesis using a b c by simp
qed

text \<open>
  Claim C3. Adjust is atomic. A client with no write pending comes back from the call
  with no write pending: what it reads next is the committed state, so no statement
  of a failed call stays behind. And the committed state is either the one before the
  call, or the one with both the new quantity on the product's rows and one more
  movement row, and the second only under the 200 response. An updated quantity is
  never observable without its movement row.
\<close>

theorem adjust_atomic:
  assumes "current c = visible c"
  shows "current (snd (adjust_client now c req)) = visible (snd (adjust_client now c req)) \<and>
   (visible (snd (adjust_client now c req)) = visible c \<or>
    (\<exists>pid currentInventory others newQuantity n mts k r.
      int4in (productId req) = Some pid \<and>
      filter (\<lambda>r. inv_product_id r = Some pid) (inventory (visible c)) = currentInventory # others \<and>
      new_quantity (movement_type req) (inv_quantity currentInventory) (quantity req) = Inr newQuantity \<and>
      bind_number newQuantity = Some n \<and>
      bind_varchar 50 (movement_type req) = Some (Some mts) \<and>
      bind_integer (quantity req) = Some k \<and>
      bind_varchar 100 (reference_number req) = Some r \<and>
      adjust_client now c req =
        (\<lparr>status = 200, json = Adjusted_json (inv_quantity currentInventory) newQuantity\<rparr>,
         connect ((visible c)\<lparr>inventory := set_quantity now pid n (inventory (visible c)),
           stock_movements := stock_movements (visible c) @
             [\<lparr>sm_product_id = pid, sm_movement_type = mts, sm_quantity = k,
               sm_reference_number = r, sm_notes = bind_text (body_notes req),
               created_at = now\<rparr>]\<rparr>))))"
proof (cases "visible (snd (adjust_client now c req)) = visible c")
  case True
  with adjust_client_settled [OF assms] show ?thesis by simp
next
  case False
  from adjust_client_committed [OF assms False] adjust_client_settled [OF assms]
  show ?thesis by (intro conjI disjI2)
qed

text \<open>
  Witness for claim C3, the forced failure: for the quantity \<^verbatim>\<open>"6.9"\<close> the \<^verbatim>\<open>UPDATE\<close> to
  56 succeeds inside the transaction, the \<^verbatim>\<open>INSERT\<close> fails, and after \<^verbatim>\<open>ROLLBACK\<close> the
  client reads the state before the call.
\<close>

theorem adjust_atomic_witness:
  "update_inventory 7 (query_begin (connect example_db)) (Num 56) ''1'' =
     Some \<lparr>visible = example_db,
           work = Some (example_db\<lparr>inventory := [example_row\<lparr>inv_quantity := 56, updated_at := 7\<rparr>]\<rparr>)\<rparr> \<and>
   insert_stock_movement 7
     \<lparr>visible = example_db,
      work = Some (example_db\<lparr>inventory := [example_row\<lparr>inv_quantity := 56, updated_at := 7\<rparr>]\<rparr>)\<rparr>
     ''1'' (String ''IN'') (String ''6.9'') Undefined Undefined = None \<and>
   adjust_client 7 (connect example_db) (example_request (String ''6.9'') (String ''IN'')) =
     (\<lparr>status = 500, json = Database_error_json\<rparr>, connect example_db) \<and>
   current (connect example_db) = visible (connect example_db) \<and>
   current (snd (adjust_client 7 (connect example_db)
     (example_request (String ''6.9'') (String ''IN'')))) = example_db"
proof -
  let ?req = "example_request (String ''6.9'') (String ''IN'')"
  have clean: "current (connect example_db) = visible (connect example_db)"
    by (rule current_connect)
  have failed: "adjust_client 7 (connect example_db) ?req =
      (\<lparr>status = 500, json = Database_error_json\<rparr>, connect example_db)"
    unfolding adjust_client_eq [OF clean]
    by (simp add: storage_error_client_def connect_def example_request_def example_db_def
        int4in_1 new_quantity_def parseInt_def parseInt_string_6_9 bind_integer_def int4in_6_9
        int4_range_def bind_varchar_def varchar_def)
  have updated: "update_inventory 7 (query_begin (connect example_db)) (Num 56) ''1'' =
     Some \<lparr>visible = example_db,
           work = Some (example_db\<lparr>inventory := [example_row\<lparr>inv_quantity := 56, updated_at := 7\<rparr>]\<rparr>)\<rparr>"
    unfolding begin_clean [OF clean]
    by (simp add: connect_def update_inventory_work int4in_1
        int4_range_def set_quantity_def example_db_def example_row_def)
  have refused: "insert_stock_movement 7
     \<lparr>visible = example_db,
      work = Some (example_db\<lparr>inventory := [example_row\<lparr>inv_quantity := 56, updated_at := 7\<rparr>]\<rparr>)\<rparr>
     ''1'' (String ''IN'') (String ''6.9'') Undefined Undefined = None"
    by (simp add: insert_stock_movement_work int4in_1 bind_integer_def int4in_6_9
        bind_varchar_def varchar_def)
  show ?thesis
    using adjust_atomic [OF clean, of 7 ?req] failed updated refused clean
    by (simp add: connect_def)
qed

text \<open>
  Claim C4, as amended. An \<^verbatim>\<open>ADJUSTMENT\<close> whose requested value passes the presence
  check and is an integer \<open>n\<close> for \<^verbatim>\<open>parseInt\<close> and for the \<^verbatim>\<open>INTEGER\<close> column alike,
  on a product that has an inventory row, with a reference number the column takes:
  the call returns the old quantity and \<open>n\<close>, the product's rows hold \<open>n\<close>, and the
  appended movement row is an \<^verbatim>\<open>ADJUSTMENT\<close> with value \<open>n\<close>.
\<close>

theorem adjust_ADJUSTMENT_overrides:
  assumes "movement_type req = String ''ADJUSTMENT''"
    and "\<not> falsy (quantity req)"
    and "parseInt (quantity req) = Num n"
    and "bind_integer (quantity req) = Some n"
    and "select_inventory (connect d) (productId req) = Some (currentInventory # others)"
    and "int4in (productId req) = Some pid"
    and "pid \<in> set (map p_id (products d))"
    and "bind_varchar 100 (reference_number req) = Some r"
  shows "adjust now d req =
      (\<lparr>status = 200, json = Adjusted_json (inv_quantity currentInventory) (Num n)\<rparr>,
       d\<lparr>inventory := set_quantity now pid n (inventory d),
         stock_movements := stock_movements d @
           [\<lparr>sm_product_id = pid, sm_movement_type = ''ADJUSTMENT'', sm_quantity = n,
             sm_reference_number = r, sm_notes = bind_text (body_notes req),
             created_at = now\<rparr>]\<rparr>) \<and>
     select_inventory (connect (snd (adjust now d req))) (productId req) =
       Some (map (\<lambda>r. r\<lparr>inv_quantity := n, updated_at := now\<rparr>) (currentInventory # others))"
proof -
  have nq: "new_quantity (movement_type req) (inv_quantity currentInventory) (quantity req) = Inr (Num n)"
    using assms(1,3) by (simp add: new_quantity_def)
  have mt: "bind_varchar 50 (movement_type req) = Some (Some ''ADJUSTMENT'')"
    using assms(1) by (simp add: varchar_def)
  have mtf: "\<not> falsy (movement_type req)" using assms(1) by simp
  note eq = adjust_success [OF assms(2) mtf assms(5,6) nq bind_integer_range [OF assms(4)] mt
      assms(4) assms(8) assms(7), of now]
  have rows: "filter (\<lambda>r. inv_product_id r = Some pid) (inventory d) = currentInventory # others"
    using assms(5,6) by (simp add: select_inventory_connect)
  show ?thesis
    using rows assms(6) by (simp add: eq select_inventory_connect filter_set_quantity)
qed

text \<open>Witness for claim C4, scenario C: \<^verbatim>\<open>ADJUSTMENT\<close> to 30 on a quantity of 50 returns \<open>(50, 30)\<close>.\<close>

theorem adjust_ADJUSTMENT_overrides_witness:
  "adjust 7 example_db (example_request (Number 30) (String ''ADJUSTMENT'')) =
     (\<lparr>status = 200, json = Adjusted_json 50 (Num 30)\<rparr>,
      example_db\<lparr>inventory := [\<lparr>inv_id = 1, inv_product_id = Some 1, inv_quantity = 30,
                    min_stock_level = Some 10, max_stock_level = Some 1000, location = None,
                    updated_at = 7\<rparr>],
         stock_movements :=
           [\<lparr>sm_product_id = 1, sm_movement_type = ''ADJUSTMENT'', sm_quantity = 30,
             sm_reference_number = None, sm_notes = None, created_at = 7\<rparr>]\<rparr>)"
proof -
  let ?req = "example_request (Number 30) (String ''ADJUSTMENT'')"
  have h1: "movement_type ?req = String ''ADJUSTMENT''" by (simp add: example_request_def)
  have h2: "\<not> falsy (quantity ?req)" by (simp add: example_request_def)
  have h3: "parseInt (quantity ?req) = Num 30" by (simp add: example_request_def)
  have h4: "bind_integer (quantity ?req) = Some 30" by (simp add: example_request_def int4_range_def)
  have h5: "select_inventory (connect example_db) (productId ?req) =
      Some (\<lparr>inv_id = 1, inv_product_id = Some 1, inv_quantity = 50,
                    min_stock_level = Some 10, max_stock_level = Some 1000, location = None,
                    updated_at = 0\<rparr> # [])"
    by (simp add: example_request_def example_db_def select_inventory_connect int4in_1)
  have h6: "int4in (productId ?req) = Some 1" by (simp add: example_request_def int4in_1)
  have h7: "1 \<in> set (map p_id (products example_db))" by (simp add: example_db_def)
  have h8: "bind_varchar 100 (reference_number ?req) = Some None" by (simp add: example_request_def)
  show ?thesis
    using adjust_ADJUSTMENT_overrides [OF h1 h2 h3 h4 h5 h6 h7 h8, of 7]
    by (simp add: example_db_def example_request_def set_quantity_def)
qed

text \<open>
  Claim C4 as stated fails: an \<^verbatim>\<open>ADJUSTMENT\<close> to the value \<open>0\<close> on a quantity of 50 is
  answered 400 by the presence check, and nothing is written.
\<close>

theorem adjust_ADJUSTMENT_zero_rejected:
  "adjust 7 example_db (example_request (Number 0) (String ''ADJUSTMENT'')) =
     (\<lparr>status = 400, json = Error_json ''Quantity and movement type are required''\<rparr>, example_db)"
  by (simp add: adjust_eq example_request_def)

text \<open>
  Claim C5, as amended. A request whose quantity is absent is answered 400 by the
  presence check before any statement is issued. A quantity that is present but that
  \<^verbatim>\<open>parseInt\<close> cannot read is not answered 400: the call ends with the 404 or a 500
  response, and the committed state is the one before the call.
\<close>

theorem adjust_quantity_absent_or_unparsable:
  "(falsy (quantity req) \<longrightarrow>
      adjust now d req =
        (\<lparr>status = 400, json = Error_json ''Quantity and movement type are required''\<rparr>, d)) \<and>
   (\<not> falsy (quantity req) \<and> \<not> falsy (movement_type req) \<and> parseInt (quantity req) = NaN \<longrightarrow>
      snd (adjust now d req) = d \<and> status (fst (adjust now d req)) \<in> {404, 500})"
  using adjust_NaN_unchanged [of req now d] by (simp add: adjust_eq)

text \<open>Witness for claim C5: an absent quantity, and the quantity \<^verbatim>\<open>"abc"\<close>.\<close>

theorem adjust_quantity_absent_or_unparsable_witness:
  "falsy (quantity (example_request Undefined (String ''IN''))) \<and>
   adjust 7 example_db (example_request Undefined (String ''IN'')) =
     (\<lparr>status = 400, json = Error_json ''Quantity and movement type are required''\<rparr>, example_db) \<and>
   \<not> falsy (quantity (example_request (String ''abc'') (String ''IN''))) \<and>
   \<not> falsy (movement_type (example_request (String ''abc'') (String ''IN''))) \<and>
   parseInt (quantity (example_request (String ''abc'') (String ''IN''))) = NaN \<and>
   snd (adjust 7 example_db (example_request (String ''abc'') (String ''IN''))) = example_db \<and>
   status (fst (adjust 7 example_db (example_request (String ''abc'') (String ''IN'')))) = 500"
proof -
  have a: "falsy (quantity (example_request Undefined (String ''IN'')))"
    by (simp add: example_request_def)
  have b: "\<not> falsy (quantity (example_request (String ''abc'') (String ''IN''))) \<and>
      \<not> falsy (movement_type (example_request (String ''abc'') (String ''IN''))) \<and>
      parseInt (quantity (example_request (String ''abc'') (String ''IN''))) = NaN"
    by (simp add: example_request_def parseInt_abc)
  have c: "status (fst (adjust 7 example_db (example_request (String ''abc'') (String ''IN'')))) = 500"
    by (simp add: adjust_eq storage_error_def example_request_def example_db_def int4in_1
        new_quantity_def parseInt_abc)
  show ?thesis
    using a b c
      adjust_quantity_absent_or_unparsable [of "example_request Undefined (String ''IN'')" 7 example_db]
      adjust_quantity_absent_or_unparsable [of "example_request (String ''abc'') (String ''IN'')" 7 example_db]
    by simp
qed

text \<open>
  Claim C5 as stated fails: for the quantity \<^verbatim>\<open>"abc"\<close> the handler computes \<^verbatim>\<open>NaN\<close>,
  issues the \<^verbatim>\<open>UPDATE\<close>, which the storage layer refuses, and answers 500 with the
  driver's message, not 400.
\<close>

theorem adjust_quantity_abc_not_InvalidRequest:
  "adjust 7 example_db (example_request (String ''abc'') (String ''IN'')) =
     (\<lparr>status = 500, json = Database_error_json\<rparr>, example_db)"
  by (simp add: adjust_eq storage_error_def example_request_def example_db_def int4in_1
      new_quantity_def parseInt_abc)

text \<open>
  Claim C6, as amended. A request that passes the presence check, for a product that
  has an inventory row, with a movement type other than \<^verbatim>\<open>IN\<close>, \<^verbatim>\<open>OUT\<close> and
  \<^verbatim>\<open>ADJUSTMENT\<close>, is answered with status 500 and the message
  \<^verbatim>\<open>Invalid movement type\<close>, and nothing is written.
\<close>

theorem adjust_unrecognised_movement_type:
  assumes "\<not> falsy (quantity req)" and "\<not> falsy (movement_type req)"
    and "movement_type req \<noteq> String ''IN''" and "movement_type req \<noteq> String ''OUT''"
    and "movement_type req \<noteq> String ''ADJUSTMENT''"
    and "select_inventory (connect d) (productId req) = Some (currentInventory # others)"
  shows "adjust now d req = (\<lparr>status = 500, json = Error_json ''Invalid movement type''\<rparr>, d)"
  using assms
  by (auto simp: adjust_eq select_inventory_connect new_quantity_def split: option.splits)

text \<open>Witness for claim C6: the movement type \<^verbatim>\<open>TRANSFER\<close> with quantity 5.\<close>

theorem adjust_unrecognised_movement_type_witness:
  "adjust 7 example_db (example_request (Number 5) (String ''TRANSFER'')) =
     (\<lparr>status = 500, json = Error_json ''Invalid movement type''\<rparr>, example_db)"
proof -
  let ?req = "example_request (Number 5) (String ''TRANSFER'')"
  have h1: "\<not> falsy (quantity ?req)" by (simp add: example_request_def)
  have h2: "\<not> falsy (movement_type ?req)" by (simp add: example_request_def)
  have h3: "movement_type ?req \<noteq> String ''IN''" by (simp add: example_request_def)
  have h4: "movement_type ?req \<noteq> String ''OUT''" by (simp add: example_request_def)
  have h5: "movement_type ?req \<noteq> String ''ADJUSTMENT''" by (simp add: example_request_def)
  have h6: "select_inventory (connect example_db) (productId ?req) = Some (example_row # [])"
    by (rule select_example)
  show ?thesis by (rule adjust_unrecognised_movement_type [OF h1 h2 h3 h4 h5 h6])
qed

text \<open>
  Claim C6 as stated fails: with the quantity absent, the movement type \<^verbatim>\<open>TRANSFER\<close>
  is answered by the presence check's message; with a quantity, its status is 500, the
  one of an internal error, not a 400-class one.
\<close>

theorem adjust_unrecognised_movement_type_other_responses:
  "adjust 7 example_db (example_request Undefined (String ''TRANSFER'')) =
     (\<lparr>status = 400, json = Error_json ''Quantity and movement type are required''\<rparr>, example_db) \<and>
   status (fst (adjust 7 example_db (example_request (Number 5) (String ''TRANSFER'')))) = 500"
  by (simp add: adjust_eq storage_error_def example_request_def example_db_def int4in_1
      new_quantity_def)

text \<open>
  Claim C7, as amended. The handler checks neither that the magnitude of an \<^verbatim>\<open>IN\<close> or
  \<^verbatim>\<open>OUT\<close> is positive nor that the target of an \<^verbatim>\<open>ADJUSTMENT\<close> is non-negative. On a
  product with an inventory row of non-negative quantity, a negative number \<open>n\<close> is
  processed: \<^verbatim>\<open>IN\<close> commits \<open>current + n\<close>, \<^verbatim>\<open>OUT\<close> commits \<open>current - n\<close>,
  \<^verbatim>\<open>ADJUSTMENT\<close> commits \<open>n\<close>, each with its movement row of value \<open>n\<close>; and a zero
  sent as the text \<^verbatim>\<open>"0"\<close> is processed by each of the three: \<^verbatim>\<open>IN\<close> and \<^verbatim>\<open>OUT\<close> commit
  the current quantity again, \<^verbatim>\<open>ADJUSTMENT\<close> commits 0, each with its movement row of
  value 0. The values are those the \<^verbatim>\<open>INTEGER\<close> columns take.
\<close>

theorem adjust_negative_magnitude_accepted:
  assumes "select_inventory (connect d) (productId req) = Some (currentInventory # others)"
    and "int4in (productId req) = Some pid"
    and "pid \<in> set (map p_id (products d))"
    and "bind_varchar 100 (reference_number req) = Some r"
    and "0 \<le> inv_quantity currentInventory"
  shows
   "(quantity req = Number n \<and> n < 0 \<and> int4_range n \<and> movement_type req = String ''IN'' \<and>
       int4_range (inv_quantity currentInventory + n) \<longrightarrow>
       adjust now d req =
        (\<lparr>status = 200, json = Adjusted_json (inv_quantity currentInventory)
                                  (Num (inv_quantity currentInventory + n))\<rparr>,
         d\<lparr>inventory := set_quantity now pid (inv_quantity currentInventory + n) (inventory d),
           stock_movements := stock_movements d @
             [\<lparr>sm_product_id = pid, sm_movement_type = ''IN'', sm_quantity = n,
               sm_reference_number = r, sm_notes = bind_text (body_notes req),
               created_at = now\<rparr>]\<rparr>)) \<and>
    (quantity req = Number n \<and> n < 0 \<and> int4_range n \<and> movement_type req = String ''OUT'' \<and>
       int4_range (inv_quantity currentInventory - n) \<longrightarrow>
       adjust now d req =
        (\<lparr>status = 200, json = Adjusted_json (inv_quantity currentInventory)
                                  (Num (inv_quantity currentInventory - n))\<rparr>,
         d\<lparr>inventory := set_quantity now pid (inv_quantity currentInventory - n) (inventory d),
           stock_movements := stock_movements d @
             [\<lparr>sm_product_id = pid, sm_movement_type = ''OUT'', sm_quantity = n,
               sm_reference_number = r, sm_notes = bind_text (body_notes req),
               created_at = now\<rparr>]\<rparr>)) \<and>
    (quantity req = Number n \<and> n < 0 \<and> int4_range n \<and>
       movement_type req = String ''ADJUSTMENT'' \<longrightarrow>
       adjust now d req =
        (\<lparr>status = 200, json = Adjusted_json (inv_quantity currentInventory) (Num n)\<rparr>,
         d\<lparr>inventory := set_quantity now pid n (inventory d),
           stock_movements := stock_movements d @
             [\<lparr>sm_product_id = pid, sm_movement_type = ''ADJUSTMENT'', sm_quantity = n,
               sm_reference_number = r, sm_notes = bind_text (body_notes req),
               created_at = now\<rparr>]\<rparr>)) \<and>
    (quantity req = String ''0'' \<and> movement_type req = String ''OUT'' \<and>
       int4_range (inv_quantity currentInventory) \<longrightarrow>
       adjust now d req =
        (\<lparr>status = 200, json = Adjusted_json (inv_quantity currentInventory)
                                  (Num (inv_quantity currentInventory))\<rparr>,
         d\<lparr>inventory := set_quantity now pid (inv_quantity currentInventory) (inventory d),
           stock_movements := stock_movements d @
             [\<lparr>sm_product_id = pid, sm_movement_type = ''OUT'', sm_quantity = 0,
               sm_reference_number = r, sm_notes = bind_text (body_notes req),
               created_at = now\<rparr>]\<rparr>)) \<and>
    (quantity req = String ''0'' \<and> movement_type req = String ''IN'' \<and>
       int4_range (inv_quantity currentInventory) \<longrightarrow>
       adjust now d req =
        (\<lparr>status = 200, json = Adjusted_json (inv_quantity currentInventory)
                                  (Num (inv_quantity currentInventory))\<rparr>,
         d\<lparr>inventory := set_quantity now pid (inv_quantity currentInventory) (inventory d),
           stock_movements := stock_movements d @
             [\<lparr>sm_product_id = pid, sm_movement_type = ''IN'', sm_quantity = 0,
               sm_reference_number = r, sm_notes = bind_text (body_notes req),
               created_at = now\<rparr>]\<rparr>)) \<and>
    (quantity req = String ''0'' \<and> movement_type req = String ''ADJUSTMENT'' \<longrightarrow>
       adjust now d req =
        (\<lparr>status = 200, json = Adjusted_json (inv_quantity currentInventory) (Num 0)\<rparr>,
         d\<lparr>inventory := set_quantity now pid 0 (inventory d),
           stock_movements := stock_movements d @
             [\<lparr>sm_product_id = pid, sm_movement_type = ''ADJUSTMENT'', sm_quantity = 0,
               sm_reference_number = r, sm_notes = bind_text (body_notes req),
               created_at = now\<rparr>]\<rparr>))"
proof (intro conjI impI)
  assume a: "quantity req = Number n \<and> n < 0 \<and> int4_range n \<and> movement_type req = String ''IN'' \<and>
       int4_range (inv_quantity currentInventory + n)"
  from a have "int4_range n" by simp
  then have small: "\<bar>n\<bar> < 1000000000000000000000" by (rule int4_range_small)
  show "adjust now d req =
        (\<lparr>status = 200, json = Adjusted_json (inv_quantity currentInventory)
                                  (Num (inv_quantity currentInventory + n))\<rparr>,
         d\<lparr>inventory := set_quantity now pid (inv_quantity currentInventory + n) (inventory d),
           stock_movements := stock_movements d @
             [\<lparr>sm_product_id = pid, sm_movement_type = ''IN'', sm_quantity = n,
               sm_reference_number = r, sm_notes = bind_text (body_notes req),
               created_at = now\<rparr>]\<rparr>)"
    by (rule adjust_success [OF _ _ assms(1,2) _ _ _ _ assms(4,3)])
       (use a small in \<open>simp_all add: new_quantity_def varchar_def\<close>)
next
  assume a: "quantity req = Number n \<and> n < 0 \<and> int4_range n \<and> movement_type req = String ''OUT'' \<and>
       int4_range (inv_quantity currentInventory - n)"
  from a have "int4_range n" by simp
  then have small: "\<bar>n\<bar> < 1000000000000000000000" by (rule int4_range_small)
  show "adjust now d req =
        (\<lparr>status = 200, json = Adjusted_json (inv_quantity currentInventory)
                                  (Num (inv_quantity currentInventory - n))\<rparr>,
         d\<lparr>inventory := set_quantity now pid (inv_quantity currentInventory - n) (inventory d),
           stock_movements := stock_movements d @
             [\<lparr>sm_product_id = pid, sm_movement_type = ''OUT'', sm_quantity = n,
               sm_reference_number = r, sm_notes = bind_text (body_notes req),
               created_at = now\<rparr>]\<rparr>)"
    by (rule adjust_success [OF _ _ assms(1,2) _ _ _ _ assms(4,3)])
       (use a assms(5) small in \<open>simp_all add: new_quantity_def varchar_def\<close>)
next
  assume a: "quantity req = Number n \<and> n < 0 \<and> int4_range n \<and>
       movement_type req = String ''ADJUSTMENT''"
  from a have "int4_range n" by simp
  then have small: "\<bar>n\<bar> < 1000000000000000000000" by (rule int4_range_small)
  show "adjust now d req =
        (\<lparr>status = 200, json = Adjusted_json (inv_quantity currentInventory) (Num n)\<rparr>,
         d\<lparr>inventory := set_quantity now pid n (inventory d),
           stock_movements := stock_movements d @
             [\<lparr>sm_product_id = pid, sm_movement_type = ''ADJUSTMENT'', sm_quantity = n,
               sm_reference_number = r, sm_notes = bind_text (body_notes req),
               created_at = now\<rparr>]\<rparr>)"
    by (rule adjust_success [OF _ _ assms(1,2) _ _ _ _ assms(4,3)])
       (use a small in \<open>simp_all add: new_quantity_def varchar_def\<close>)
next
  assume a: "quantity req = String ''0'' \<and> movement_type req = String ''OUT'' \<and>
       int4_range (inv_quantity currentInventory)"
  show "adjust now d req =
        (\<lparr>status = 200, json = Adjusted_json (inv_quantity currentInventory)
                                  (Num (inv_quantity currentInventory))\<rparr>,
         d\<lparr>inventory := set_quantity now pid (inv_quantity currentInventory) (inventory d),
           stock_movements := stock_movements d @
             [\<lparr>sm_product_id = pid, sm_movement_type = ''OUT'', sm_quantity = 0,
               sm_reference_number = r, sm_notes = bind_text (body_notes req),
               created_at = now\<rparr>]\<rparr>)"
    by (rule adjust_success [OF _ _ assms(1,2) _ _ _ _ assms(4,3)])
       (use a assms(5) in \<open>simp_all add: new_quantity_def varchar_def
           parseInt_zero_text int4in_zero_text\<close>)
next
  assume a: "quantity req = String ''0'' \<and> movement_type req = String ''IN'' \<and>
       int4_range (inv_quantity currentInventory)"
  show "adjust now d req =
        (\<lparr>status = 200, json = Adjusted_json (inv_quantity currentInventory)
                                  (Num (inv_quantity currentInventory))\<rparr>,
         d\<lparr>inventory := set_quantity now pid (inv_quantity currentInventory) (inventory d),
           stock_movements := stock_movements d @
             [\<lparr>sm_product_id = pid, sm_movement_type = ''IN'', sm_quantity = 0,
               sm_reference_number = r, sm_notes = bind_text (body_notes req),
               created_at = now\<rparr>]\<rparr>)"
    by (rule adjust_success [OF _ _ assms(1,2) _ _ _ _ assms(4,3)])
       (use a in \<open>simp_all add: new_quantity_def varchar_def
           parseInt_zero_text int4in_zero_text\<close>)
next
  assume a: "quantity req = String ''0'' \<and> movement_type req = String ''ADJUSTMENT''"
  show "adjust now d req =
        (\<lparr>status = 200, json = Adjusted_json (inv_quantity currentInventory) (Num 0)\<rparr>,
         d\<lparr>inventory := set_quantity now pid 0 (inventory d),
           stock_movements := stock_movements d @
             [\<lparr>sm_product_id = pid, sm_movement_type = ''ADJUSTMENT'', sm_quantity = 0,
               sm_reference_number = r, sm_notes = bind_text (body_notes req),
               created_at = now\<rparr>]\<rparr>)"
    by (rule adjust_success [OF _ _ assms(1,2) _ _ _ _ assms(4,3)])
       (use a in \<open>simp_all add: new_quantity_def varchar_def int4_range_def
           parseInt_zero_text int4in_zero_text\<close>)
qed

text \<open>Witness for claim C7: \<^verbatim>\<open>IN\<close> of \<open>-5\<close> on a quantity of 50 is processed and commits 45.\<close>

theorem adjust_negative_magnitude_accepted_witness:
  "adjust 7 example_db (example_request (Number (- 5)) (String ''IN'')) =
     (\<lparr>status = 200, json = Adjusted_json 50 (Num 45)\<rparr>,
      example_db\<lparr>inventory := [example_row\<lparr>inv_quantity := 45, updated_at := 7\<rparr>],
         stock_movements :=
           [\<lparr>sm_product_id = 1, sm_movement_type = ''IN'', sm_quantity = - 5,
             sm_reference_number = None, sm_notes = None, created_at = 7\<rparr>]\<rparr>)"
proof -
  let ?req = "example_request (Number (- 5)) (String ''IN'')"
  have h1: "select_inventory (connect example_db) (productId ?req) = Some (example_row # [])"
    by (rule select_example)
  have h2: "int4in (productId ?req) = Some 1" by (simp add: example_request_def int4in_1)
  have h3: "1 \<in> set (map p_id (products example_db))" by (simp add: example_db_def)
  have h4: "bind_varchar 100 (reference_number ?req) = Some None" by (simp add: example_request_def)
  have h5: "0 \<le> inv_quantity example_row" by (simp add: example_row_def)
  have h6: "quantity ?req = Number (- 5) \<and> (- 5 :: int) < 0 \<and> int4_range (- 5) \<and>
      movement_type ?req = String ''IN'' \<and> int4_range (inv_quantity example_row + (- 5))"
    by (simp add: example_request_def example_row_def int4_range_def)
  show ?thesis
    using adjust_negative_magnitude_accepted [OF h1 h2 h3 h4 h5, of "- 5" 7] h6
    by (simp add: example_db_def example_row_def example_request_def set_quantity_def)
qed

text \<open>
  Claim C7 as stated fails: an \<^verbatim>\<open>OUT\<close> of the number \<open>0\<close> is refused by the presence
  check with the 400 response.
\<close>

theorem adjust_OUT_zero_rejected:
  "adjust 7 example_db (example_request (Number 0) (String ''OUT'')) =
     (\<lparr>status = 400, json = Error_json ''Quantity and movement type are required''\<rparr>, example_db)"
  by (simp add: adjust_eq example_request_def)

text \<open>
  Claim C8. With product and category keys unique and every inventory row referring
  to its product, the low-stock query returns exactly the inventory rows with
  \<open>quantity \<le> min_stock_level\<close>, each once, in ascending order of quantity.
\<close>

theorem low_stock_exact:
  assumes "distinct (map p_id (products d))"
    and "distinct (map c_id (categories d))"
    and "\<forall>i \<in> set (inventory d). \<exists>p \<in> set (products d). inv_product_id i = Some (p_id p)"
  shows "mset (map inventory_columns (low_stock d)) = mset (filter low (inventory d)) \<and>
     sorted (map (\<lambda>r. inv_quantity (inventory_columns r)) (low_stock d))"
proof -
  have "map inventory_columns (filter (\<lambda>r. low (inventory_columns r)) (joined_rows d)) =
      filter low (map inventory_columns (joined_rows d))"
    by (simp add: filter_map comp_def)
  also have "\<dots> = filter low (inventory d)"
    by (simp only: inv_joined_rows [OF assms])
  finally have "mset (map inventory_columns (low_stock d)) = mset (filter low (inventory d))"
    unfolding low_stock_def by (metis mset_map mset_sort)
  then show ?thesis by (simp add: low_stock_def)
qed

text \<open>
  Witness for claim C8, scenario D: of the rows with quantity 5, 15 and 3 and minimum 10, the query returns
  those with 3 and 5, in that order, and not the one with 15.
\<close>

theorem low_stock_exact_witness:
  "mset (map inventory_columns (low_stock low_stock_db)) = mset (filter low (inventory low_stock_db)) \<and>
   sorted (map (\<lambda>r. inv_quantity (inventory_columns r)) (low_stock low_stock_db)) \<and>
   map (\<lambda>i. (inv_quantity i, min_stock_level i)) (inventory low_stock_db) =
     [(5, Some 10), (15, Some 10), (3, Some 10)] \<and>
   map (\<lambda>r. (inv_quantity (inventory_columns r), min_stock_level (inventory_columns r))) (low_stock low_stock_db) =
     [(3, Some 10), (5, Some 10)]"
proof -
  have h1: "distinct (map p_id (products low_stock_db))" by (simp add: low_stock_db_def)
  have h2: "distinct (map c_id (categories low_stock_db))" by (simp add: low_stock_db_def)
  have h3: "\<forall>i \<in> set (inventory low_stock_db).
      \<exists>p \<in> set (products low_stock_db). inv_product_id i = Some (p_id p)"
    by (simp add: low_stock_db_def)
  have rows: "map (\<lambda>r. (inv_quantity (inventory_columns r), min_stock_level (inventory_columns r))) (low_stock low_stock_db) =
     [(3, Some 10), (5, Some 10)]"
    by (simp add: low_stock_def joined_rows_def join_products_def left_join_categories_def
        low_def low_stock_db_def)
  have stored: "map (\<lambda>i. (inv_quantity i, min_stock_level i)) (inventory low_stock_db) =
     [(5, Some 10), (15, Some 10), (3, Some 10)]"
    by (simp add: low_stock_db_def)
  show ?thesis
    using low_stock_exact [OF h1 h2 h3] rows stored by simp
qed

text \<open>
  Claim C9 fails on the code. Two \<^verbatim>\<open>OUT\<close> calls for 6 on a quantity of 10, each on its
  own client: both read 10 before either writes, both compute 4, and both commit. Each
  is answered 200 with the new quantity 4; the committed quantity is 4 and two
  movements of 6 are recorded. The \<^verbatim>\<open>SELECT\<close> takes no lock, so the second call does
  not see the first one's committed quantity before it computes its own.
\<close>

theorem adjust_interleaved_two_successes:
  "adjust_interleaved 7 8 contended_db
     (example_request (Number 6) (String ''OUT'')) (example_request (Number 6) (String ''OUT'')) =
     (\<lparr>status = 200, json = Adjusted_json 10 (Num 4)\<rparr>,
      \<lparr>status = 200, json = Adjusted_json 10 (Num 4)\<rparr>,
      contended_db\<lparr>inventory := [example_row\<lparr>inv_quantity := 4, updated_at := 8\<rparr>],
        stock_movements :=
          [\<lparr>sm_product_id = 1, sm_movement_type = ''OUT'', sm_quantity = 6,
             sm_reference_number = None, sm_notes = None, created_at = 7\<rparr>,
           \<lparr>sm_product_id = 1, sm_movement_type = ''OUT'', sm_quantity = 6,
             sm_reference_number = None, sm_notes = None, created_at = 8\<rparr>]\<rparr>)"
proof -
  let ?req = "example_request (Number 6) (String ''OUT'')"
  let ?row = "example_row\<lparr>inv_quantity := 10\<rparr>"
  let ?m = "\<lambda>now. \<lparr>sm_product_id = 1, sm_movement_type = ''OUT'', sm_quantity = 6,
      sm_reference_number = None, sm_notes = None, created_at = now\<rparr>"
  define d1 where "d1 = contended_db\<lparr>inventory := set_quantity 7 1 4 (inventory contended_db),
      stock_movements := stock_movements contended_db @ [?m 7]\<rparr>"
  define d2 where "d2 = d1\<lparr>inventory := set_quantity 8 1 4 (inventory d1),
      stock_movements := stock_movements d1 @ [?m 8]\<rparr>"
  have p: "products contended_db = products example_db"
    by (simp add: contended_db_def)
  have p1: "products d1 = products example_db"
    by (simp add: d1_def contended_db_def)
  have w1: "adjust_from_write 7 \<lparr>visible = contended_db, work = Some contended_db\<rparr> ?req
      (?row, Num 4) = (\<lparr>status = 200, json = Adjusted_json 10 (Num 4)\<rparr>, connect d1)"
    unfolding d1_def by (rule from_write_contended [OF p])
  have oc: "other_commit (visible (connect d1))
      \<lparr>visible = contended_db, work = Some contended_db\<rparr> = \<lparr>visible = d1, work = Some d1\<rparr>"
    by (simp add: other_commit_def connect_def)
  have w2: "adjust_from_write 8 \<lparr>visible = d1, work = Some d1\<rparr> ?req
      (?row, Num 4) = (\<lparr>status = 200, json = Adjusted_json 10 (Num 4)\<rparr>, connect d2)"
    unfolding d2_def by (rule from_write_contended [OF p1])
  have run: "adjust_interleaved 7 8 contended_db ?req ?req =
      (\<lparr>status = 200, json = Adjusted_json 10 (Num 4)\<rparr>,
       \<lparr>status = 200, json = Adjusted_json 10 (Num 4)\<rparr>, d2)"
    unfolding adjust_interleaved_def until_write_contended
    by (simp only: sum.case prod.case w1 oc w2) (simp add: connect_def)
  have "d2 = contended_db\<lparr>inventory := [example_row\<lparr>inv_quantity := 4, updated_at := 8\<rparr>],
        stock_movements := [?m 7, ?m 8]\<rparr>"
    by (simp add: d2_def d1_def set_quantity_def contended_db_def example_db_def example_row_def)
  with run show ?thesis by simp
qed

text \<open>
  Claim C10, as amended. A quantity that is numeric but not an integer, a number or a
  string whose text is a sign or none, decimal digits, a point and whatever follows,
  such as \<^verbatim>\<open>"6.9"\<close>, passes the presence check. \<^verbatim>\<open>parseInt\<close> reads the digits before the
  point, and the new quantity is computed from that truncated value; this is stated for
  up to 15 digits, which a number holds exactly, as does its sum with a stored
  quantity. The value as submitted is what the \<^verbatim>\<open>INSERT\<close> binds to the \<^verbatim>\<open>INTEGER\<close>
  column, which refuses it: the call ends with a 500 response, the client comes back
  rolled back, and neither the quantity nor the movements change.
\<close>

theorem adjust_fractional_quantity_rolled_back:
  assumes "quantity req = String (sg @ ds @ CHR ''.'' # rest) \<or>
      quantity req = NumberText (sg @ ds @ CHR ''.'' # rest)"
    and "sg = [] \<or> sg = ''-'' \<or> sg = ''+''" and "ds \<noteq> []" and "list_all digit_char ds"
    and "movement_type req \<in> {String ''IN'', String ''OUT'', String ''ADJUSTMENT''}"
    and "select_inventory (connect d) (productId req) = Some (currentInventory # others)"
    and "k = (if sg = ''-'' then - 1 else 1) * int (decimal_value ds)"
  shows "\<not> falsy (quantity req) \<and>
     (length ds \<le> 15 \<longrightarrow>
        parseInt (quantity req) = Num k \<and>
        new_quantity (movement_type req) (inv_quantity currentInventory) (quantity req) =
          (if movement_type req = String ''IN'' then Inr (Num (inv_quantity currentInventory + k))
           else if movement_type req = String ''ADJUSTMENT'' then Inr (Num k)
           else if inv_quantity currentInventory - k < 0 then Inl (Error ''Insufficient stock'')
           else Inr (Num (inv_quantity currentInventory - k)))) \<and>
     bind_integer (quantity req) = None \<and>
     status (fst (adjust_client now (connect d) req)) = 500 \<and>
     snd (adjust_client now (connect d) req) = connect d"
proof -
  let ?t = "sg @ ds @ CHR ''.'' # rest"
  have shown: "ToString (quantity req) = ?t" "driver_text (quantity req) = Some ?t"
    using assms(1) by auto
  have nonempty: "?t \<noteq> []" using assms(3) by simp
  have nonzero: "?t \<noteq> ''0''" "?t \<noteq> ''NaN''"
    using assms(2,3) by (auto simp: append_eq_Cons_conv)
  have present: "\<not> falsy (quantity req)"
    using assms(1) nonempty nonzero by auto
  have parsed: "parseInt (quantity req) = Num k"
    using parseInt_string_signed [OF assms(2-4) ends_number_point, of rest] assms(7)
    by (simp add: parseInt_def shown)
  have refused: "bind_integer (quantity req) = None"
    using int4in_signed [OF assms(2-4) ends_number_point, of rest] point_not_space [of rest]
    by (simp add: bind_integer_def shown)
  have mt: "\<not> falsy (movement_type req)" using assms(5) by auto
  have nq: "new_quantity (movement_type req) (inv_quantity currentInventory) (quantity req) =
       (if movement_type req = String ''IN'' then Inr (Num (inv_quantity currentInventory + k))
        else if movement_type req = String ''ADJUSTMENT'' then Inr (Num k)
        else if inv_quantity currentInventory - k < 0 then Inl (Error ''Insufficient stock'')
        else Inr (Num (inv_quantity currentInventory - k)))"
    using parsed assms(5) by (auto simp: new_quantity_def)
  have rows: "\<exists>pid. int4in (productId req) = Some pid \<and>
      filter (\<lambda>r. inv_product_id r = Some pid) (inventory d) = currentInventory # others"
    using assms(6) by (simp add: select_inventory_connect split: option.splits)
  have "status (fst (adjust_client now (connect d) req)) = 500 \<and>
      snd (adjust_client now (connect d) req) = connect d"
    unfolding adjust_client_eq [OF current_connect]
    using present mt rows refused
    by (auto simp: storage_error_client_def connect_def split: option.splits sum.splits)
  with present parsed nq refused show ?thesis by simp
qed

text \<open>Witness for claim C10, the quantity \<^verbatim>\<open>"6.9"\<close>: read as 6, new quantity 56, refused,
  nothing committed.\<close>

theorem adjust_fractional_quantity_rolled_back_witness:
  "parseInt (quantity (example_request (String ''6.9'') (String ''IN''))) = Num 6 \<and>
   bind_integer (quantity (example_request (String ''6.9'') (String ''IN''))) = None \<and>
   new_quantity (String ''IN'') 50 (String ''6.9'') = Inr (Num 56) \<and>
   status (fst (adjust_client 7 (connect example_db)
     (example_request (String ''6.9'') (String ''IN'')))) = 500 \<and>
   snd (adjust_client 7 (connect example_db)
     (example_request (String ''6.9'') (String ''IN''))) = connect example_db"
proof -
  let ?req = "example_request (String ''6.9'') (String ''IN'')"
  have h1: "quantity ?req = String ([] @ ''6'' @ CHR ''.'' # ''9'') \<or>
      quantity ?req = NumberText ([] @ ''6'' @ CHR ''.'' # ''9'')"
    by (simp add: example_request_def)
  have h2: "[] = [] \<or> [] = ''-'' \<or> [] = ''+''" by simp
  have h3: "''6'' \<noteq> []" by simp
  have h4: "list_all digit_char ''6''" by (simp add: digit_char_def)
  have h5: "movement_type ?req \<in> {String ''IN'', String ''OUT'', String ''ADJUSTMENT''}"
    by (simp add: example_request_def)
  have h6: "select_inventory (connect example_db) (productId ?req) = Some (example_row # [])"
    by (rule select_example)
  have h7: "(6 :: int) = (if [] = ''-'' then - 1 else 1) * int (decimal_value ''6'')"
    by (simp add: decimal_value_def digits_value_def digit_val_def)
  show ?thesis
    using adjust_fractional_quantity_rolled_back [OF h1 h2 h3 h4 h5 h6 h7, of 7]
    by (simp add: example_request_def example_row_def)
qed

text \<open>
  Claim C10 as stated fails: the request with quantity \<^verbatim>\<open>"6.9"\<close> is answered 500 and
  no movement row is appended.
\<close>

theorem adjust_fractional_quantity_rejected:
  "adjust 7 example_db (example_request (String ''6.9'') (String ''IN'')) =
     (\<lparr>status = 500, json = Database_error_json\<rparr>, example_db) \<and>
   stock_movements example_db = []"
  by (simp add: adjust_eq storage_error_def example_request_def example_db_def int4in_1
      new_quantity_def parseInt_def parseInt_string_6_9 bind_integer_def int4in_6_9
      int4_range_def bind_varchar_def varchar_def)

end
